theory Spec2Isabelle
  imports Complex_Main "HOL-Library.Sublist"
begin

section \<open>Alchemical states\<close>

text \<open>
  The module \<^verbatim>\<open>alchemy.py\<close> builds alchemically modified copies of an OpenMM system.
  Python floats are idealised as real numbers throughout; particle indices stored in
  force terms and the ligand atom list are Python integers (\<^typ>\<open>int\<close>), loop counters
  running over \<^verbatim>\<open>range(n)\<close> are natural numbers.
\<close>

record AlchemicalState =
  annihilateElectrostatics :: bool
  annihilateLennardJones :: bool
  relativeRestraints :: real
  ligandElectrostatics :: real
  ligandLennardJones :: real
  ligandTorsions :: real

text \<open>\<^verbatim>\<open>AlchemicalState.__init__\<close>: the two flags get their defaults, the four factors are stored.\<close>

definition AlchemicalState_init :: "real \<Rightarrow> real \<Rightarrow> real \<Rightarrow> real \<Rightarrow> AlchemicalState" where
  "AlchemicalState_init rr le llj lt =
     \<lparr> annihilateElectrostatics = True,
       annihilateLennardJones = False,
       relativeRestraints = rr,
       ligandElectrostatics = le,
       ligandLennardJones = llj,
       ligandTorsions = lt \<rparr>"

section \<open>Protocol presets\<close>

definition defaultComplexProtocolImplicit :: "AlchemicalState list" where
  "defaultComplexProtocolImplicit =
     [ AlchemicalState_init 0.00 1.00 1.00 1,
       AlchemicalState_init 0.00 0.75 1.00 1,
       AlchemicalState_init 0.00 0.50 1.00 1,
       AlchemicalState_init 0.00 0.25 1.00 1,
       AlchemicalState_init 0.00 0.00 1.00 1,
       AlchemicalState_init 0.00 0.00 0.95 1,
       AlchemicalState_init 0.00 0.00 0.90 1,
       AlchemicalState_init 0.00 0.00 0.80 1,
       AlchemicalState_init 0.00 0.00 0.75 1,
       AlchemicalState_init 0.00 0.00 0.70 1,
       AlchemicalState_init 0.00 0.00 0.65 1,
       AlchemicalState_init 0.00 0.00 0.60 1,
       AlchemicalState_init 0.00 0.00 0.55 1,
       AlchemicalState_init 0.00 0.00 0.50 1,
       AlchemicalState_init 0.00 0.00 0.45 1,
       AlchemicalState_init 0.00 0.00 0.40 1,
       AlchemicalState_init 0.00 0.00 0.35 1,
       AlchemicalState_init 0.00 0.00 0.30 1,
       AlchemicalState_init 0.00 0.00 0.25 1,
       AlchemicalState_init 0.00 0.00 0.20 1,
       AlchemicalState_init 0.00 0.00 0.15 1,
       AlchemicalState_init 0.00 0.00 0.10 1,
       AlchemicalState_init 0.00 0.00 0.05 1,
       AlchemicalState_init 0.00 0.00 0.00 1 ]"

section \<open>OpenMM objects\<close>

text \<open>
  The objects of the physics engine are modelled by the parameters the module reads and
  writes through the engine's accessors. The integer codes of the cutoff methods are
  shared by the nonbonded, generalized-Born and custom terms, so one type serves all.
\<close>

datatype error = IndexError

datatype NonbondedMethod = NoCutoff | CutoffNonPeriodic | CutoffPeriodic | Ewald | PME

datatype ComputationType = SingleParticle | ParticlePair | ParticlePairNoExclusions

type_synonym Vec3 = "real \<times> real \<times> real"

record PeriodicTorsionForce =
  torsions :: "(int \<times> int \<times> int \<times> int \<times> int \<times> real \<times> real) list"

record NonbondedForce =
  nb_particles :: "(real \<times> real \<times> real) list"
  nb_exceptions :: "(int \<times> int \<times> real \<times> real \<times> real) list"
  nb_nonbondedMethod :: NonbondedMethod
  nb_cutoffDistance :: real
  nb_useDispersionCorrection :: bool

record GBSAOBCForce =
  gb_particles :: "(real \<times> real \<times> real) list"
  gb_nonbondedMethod :: NonbondedMethod
  gb_cutoffDistance :: real
  gb_solventDielectric :: real
  gb_soluteDielectric :: real

record CustomExternalForce =
  ce_energyFunction :: string
  ce_globalParameters :: "(string \<times> real) list"
  ce_perParticleParameters :: "string list"
  ce_particles :: "(int \<times> real list) list"

record CustomBondForce =
  cb_energyFunction :: string
  cb_globalParameters :: "(string \<times> real) list"
  cb_perBondParameters :: "string list"
  cb_bonds :: "(int \<times> int \<times> real list) list"

record CustomNonbondedForce =
  cn_energyFunction :: string
  cn_globalParameters :: "(string \<times> real) list"
  cn_perParticleParameters :: "string list"
  cn_particles :: "real list list"
  cn_exclusions :: "(int \<times> int) list"
  cn_nonbondedMethod :: NonbondedMethod
  cn_cutoffDistance :: real

record CustomGBForce =
  cg_perParticleParameters :: "string list"
  cg_nonbondedMethod :: NonbondedMethod
  cg_cutoffDistance :: real
  cg_globalParameters :: "(string \<times> real) list"
  cg_computedValues :: "(string \<times> string \<times> ComputationType) list"
  cg_energyTerms :: "(string \<times> ComputationType) list"
  cg_particles :: "real list list"

text \<open>
  A force term is one of the kinds the module tests with \<^verbatim>\<open>isinstance\<close>, or any other
  kind of the engine (harmonic bonds, angles, barostats, ...), kept as its class name and
  its parameter data.
\<close>

datatype Force =
    PeriodicTorsion PeriodicTorsionForce
  | Nonbonded NonbondedForce
  | GBSAOBC GBSAOBCForce
  | CustomExternal CustomExternalForce
  | CustomBond CustomBondForce
  | CustomNonbonded CustomNonbondedForce
  | CustomGB CustomGBForce
  | OtherForce string "real list"

text \<open>
  A system; the type parameter is how it holds its force terms: by value
  (\<^typ>\<open>Force\<close>) or as addresses into a store of objects.
\<close>

record 'f System =
  periodicBoxVectors :: "Vec3 \<times> Vec3 \<times> Vec3"
  particleMasses :: "real list"
  constraints :: "(int \<times> int \<times> real) list"
  forces :: "'f list"

text \<open>\<^verbatim>\<open>openmm.System()\<close>: no particles, constraints or forces, the engine's default box.\<close>

definition System_new :: "'f System" where
  "System_new = \<lparr> periodicBoxVectors = ((2, 0, 0), (0, 2, 0), (0, 0, 2)),
                  particleMasses = [], constraints = [], forces = [] \<rparr>"

definition addParticle :: "'f System \<Rightarrow> real \<Rightarrow> 'f System" where
  "addParticle system mass = system\<lparr>particleMasses := particleMasses system @ [mass]\<rparr>"

definition addConstraint :: "'f System \<Rightarrow> int \<times> int \<times> real \<Rightarrow> 'f System" where
  "addConstraint system c = system\<lparr>constraints := constraints system @ [c]\<rparr>"

definition addForce :: "'f System \<Rightarrow> 'f \<Rightarrow> 'f System" where
  "addForce system force = system\<lparr>forces := forces system @ [force]\<rparr>"

definition getNumParticles :: "'f System \<Rightarrow> nat" where
  "getNumParticles system = length (particleMasses system)"

section \<open>The factory\<close>

text \<open>
  The type parameter is how the factory holds its reference system: the system itself, or
  the address of the system object in a store.
\<close>

record 'r Factory =
  reference_system :: 'r
  ligand_atoms :: "int list"
  ligand_atomset :: "int set"

text \<open>
  \<^verbatim>\<open>AbsoluteAlchemicalFactory.__init__\<close> stores a deep copy of the reference system, a
  deep copy of the ligand atom list and the set of its elements. No statement of it
  inspects the indices or raises; the result type has the error alternative so that
  failure of construction can be stated.
\<close>

definition Factory_init :: "Force System \<Rightarrow> int list \<Rightarrow> error + Force System Factory" where
  "Factory_init reference_system0 ligand_atoms0 =
     Inr \<lparr> reference_system = reference_system0,
           ligand_atoms = ligand_atoms0,
           ligand_atomset = set ligand_atoms0 \<rparr>"

section \<open>Building a perturbed system\<close>

subsection \<open>Periodic torsions\<close>

definition addTorsion ::
  "PeriodicTorsionForce \<Rightarrow> int \<times> int \<times> int \<times> int \<times> int \<times> real \<times> real \<Rightarrow> PeriodicTorsionForce" where
  "addTorsion force t = force\<lparr>torsions := torsions force @ [t]\<rparr>"

text \<open>
  The torsion branch of \<^verbatim>\<open>createPerturbedSystem\<close>: a new torsion force receives every
  torsion of the reference force, its barrier scaled when the set of its four atoms is a
  subset of the ligand atom set.
\<close>

definition copyPeriodicTorsionForce ::
  "'r Factory \<Rightarrow> AlchemicalState \<Rightarrow> PeriodicTorsionForce \<Rightarrow> PeriodicTorsionForce" where
  "copyPeriodicTorsionForce self alchemical_state reference_force =
     fold (\<lambda>torsion_index force.
             case torsions reference_force ! torsion_index of
               (particle1, particle2, particle3, particle4, periodicity, phase, k) \<Rightarrow>
                 let k = (if {particle1, particle2, particle3, particle4} \<subseteq> ligand_atomset self
                          then k * ligandTorsions alchemical_state else k)
                 in addTorsion force (particle1, particle2, particle3, particle4, periodicity, phase, k))
          [0 ..< length (torsions reference_force)]
          \<lparr> torsions = [] \<rparr>"

subsection \<open>Electrostatics of the nonbonded term\<close>

definition setParticleParameters ::
  "NonbondedForce \<Rightarrow> nat \<Rightarrow> real \<times> real \<times> real \<Rightarrow> NonbondedForce" where
  "setParticleParameters force i p = force\<lparr>nb_particles := (nb_particles force)[i := p]\<rparr>"

definition setExceptionParameters ::
  "NonbondedForce \<Rightarrow> nat \<Rightarrow> int \<times> int \<times> real \<times> real \<times> real \<Rightarrow> NonbondedForce" where
  "setExceptionParameters force i e = force\<lparr>nb_exceptions := (nb_exceptions force)[i := e]\<rparr>"

definition scaleParticleCharge :: "'r Factory \<Rightarrow> AlchemicalState \<Rightarrow> nat \<Rightarrow> NonbondedForce \<Rightarrow> NonbondedForce" where
  "scaleParticleCharge self alchemical_state particle_index force =
     (case nb_particles force ! particle_index of
        (charge, sigma, epsilon) \<Rightarrow>
          let charge = (if int particle_index \<in> ligand_atomset self
                        then charge * ligandElectrostatics alchemical_state else charge)
          in setParticleParameters force particle_index (charge, sigma, epsilon))"

definition scaleExceptionChargeprod :: "'r Factory \<Rightarrow> AlchemicalState \<Rightarrow> nat \<Rightarrow> NonbondedForce \<Rightarrow> NonbondedForce" where
  "scaleExceptionChargeprod self alchemical_state exception_index force =
     (case nb_exceptions force ! exception_index of
        (iatom, jatom, chargeprod, sigma, epsilon) \<Rightarrow>
          let chargeprod =
                (if iatom \<in> ligand_atomset self \<and> jatom \<in> ligand_atomset self
                 then (if annihilateElectrostatics alchemical_state
                       then chargeprod * (ligandElectrostatics alchemical_state)\<^sup>2
                       else chargeprod)
                 else chargeprod)
          in setExceptionParameters force exception_index (iatom, jatom, chargeprod, sigma, epsilon))"

text \<open>
  The block under \<^verbatim>\<open>if alchemical_state.ligandElectrostatics != 1.0\<close>: one loop over
  the particles, one over the exceptions, each reading an entry and writing it back.
\<close>

definition modifyElectrostatics :: "'r Factory \<Rightarrow> AlchemicalState \<Rightarrow> NonbondedForce \<Rightarrow> NonbondedForce" where
  "modifyElectrostatics self alchemical_state force =
     (let force = fold (scaleParticleCharge self alchemical_state)
                       [0 ..< length (nb_particles force)] force
      in fold (scaleExceptionChargeprod self alchemical_state)
              [0 ..< length (nb_exceptions force)] force)"

subsection \<open>Softcore Lennard-Jones\<close>

text \<open>
  \<^verbatim>\<open>_alchemicallyModifyLennardJones\<close> is only called with its default softcore constants
  \<^verbatim>\<open>alpha=0.50, a=1, b=1, c=1\<close>, which \<^verbatim>\<open>%f\<close> prints with six decimals.
\<close>

definition softcore_expression :: string where
  "softcore_expression =
     ''4*epsilon*(lambda^a)*x*(x-1.0);''
     @ ''x = (1.0/(alpha*(1.0-lambda)^b + (r/sigma)^c))^(6/c);''"

definition softcore_constants :: string where
  "softcore_constants = ''alpha = 0.500000;'' @ ''a = 1.000000; b = 1.000000; c = 1.000000;''"

definition custom_nonbonded_expression :: "bool \<Rightarrow> string" where
  "custom_nonbonded_expression annihilate =
     softcore_expression
     @ ''epsilon = sqrt(epsilon1*epsilon2);''
     @ ''sigma = 0.5*(sigma1 + sigma2);''
     @ (if annihilate
        then ''lambda = lennard_jones_lambda*(alchemical1*(1-alchemical2) + alchemical2*(1-alchemical1) + alchemical1*alchemical2);''
        else ''lambda = lennard_jones_lambda*(alchemical1*(1-alchemical2) + alchemical2*(1-alchemical1)) + alchemical1*alchemical2;'')
     @ softcore_constants"

definition custom_bond_expression :: string where
  "custom_bond_expression =
     softcore_expression @ softcore_constants @ ''lambda = lennard_jones_lambda;''"

definition CustomNonbondedForce_new :: "string \<Rightarrow> CustomNonbondedForce" where
  "CustomNonbondedForce_new energy =
     \<lparr> cn_energyFunction = energy, cn_globalParameters = [], cn_perParticleParameters = [],
       cn_particles = [], cn_exclusions = [],
       cn_nonbondedMethod = NoCutoff, cn_cutoffDistance = 1 \<rparr>"

definition CustomBondForce_new :: "string \<Rightarrow> CustomBondForce" where
  "CustomBondForce_new energy =
     \<lparr> cb_energyFunction = energy, cb_globalParameters = [], cb_perBondParameters = [],
       cb_bonds = [] \<rparr>"

definition addBond :: "CustomBondForce \<Rightarrow> int \<times> int \<times> real list \<Rightarrow> CustomBondForce" where
  "addBond force b = force\<lparr>cb_bonds := cb_bonds force @ [b]\<rparr>"

definition cn_addParticle :: "CustomNonbondedForce \<Rightarrow> real list \<Rightarrow> CustomNonbondedForce" where
  "cn_addParticle force p = force\<lparr>cn_particles := cn_particles force @ [p]\<rparr>"

definition addExclusion :: "CustomNonbondedForce \<Rightarrow> int \<Rightarrow> int \<Rightarrow> CustomNonbondedForce" where
  "addExclusion force i j = force\<lparr>cn_exclusions := cn_exclusions force @ [(i, j)]\<rparr>"

text \<open>Body of the loop "Copy Lennard-Jones particle parameters".\<close>

definition softcoreParticle ::
  "int list \<Rightarrow> nat \<Rightarrow> NonbondedForce \<times> CustomNonbondedForce \<Rightarrow> NonbondedForce \<times> CustomNonbondedForce" where
  "softcoreParticle alchemical_atom_indices particle_index st =
     (case st of (nonbonded_force, custom_nonbonded_force) \<Rightarrow>
        case nb_particles nonbonded_force ! particle_index of
          (charge, sigma, epsilon) \<Rightarrow>
            if int particle_index \<in> set alchemical_atom_indices
            then (setParticleParameters nonbonded_force particle_index (charge, sigma, epsilon * 0),
                  cn_addParticle custom_nonbonded_force [sigma, epsilon, 1])
            else (nonbonded_force, cn_addParticle custom_nonbonded_force [sigma, epsilon, 0]))"

text \<open>
  Body of the loop over the exceptions. The bond force exists exactly when
  \<^verbatim>\<open>annihilateLennardJones\<close> is set, the only case in which the loop uses it.
\<close>

definition softcoreException ::
  "int list \<Rightarrow> AlchemicalState \<Rightarrow> nat
     \<Rightarrow> NonbondedForce \<times> CustomNonbondedForce \<times> CustomBondForce option
     \<Rightarrow> NonbondedForce \<times> CustomNonbondedForce \<times> CustomBondForce option" where
  "softcoreException alchemical_atom_indices alchemical_state exception_index st =
     (case st of (nonbonded_force, custom_nonbonded_force, custom_bond_force) \<Rightarrow>
        case nb_exceptions nonbonded_force ! exception_index of
          (iatom, jatom, chargeprod, sigma, epsilon) \<Rightarrow>
            let custom_nonbonded_force = addExclusion custom_nonbonded_force iatom jatom
            in if annihilateLennardJones alchemical_state
                  \<and> iatom \<in> set alchemical_atom_indices \<and> jatom \<in> set alchemical_atom_indices
               then (setExceptionParameters nonbonded_force exception_index
                       (iatom, jatom, chargeprod, sigma, epsilon * 0),
                     custom_nonbonded_force,
                     map_option (\<lambda>f. addBond f (iatom, jatom, [sigma, epsilon])) custom_bond_force)
               else (nonbonded_force, custom_nonbonded_force, custom_bond_force))"

text \<open>
  \<^verbatim>\<open>_alchemicallyModifyLennardJones\<close>. The Python function mutates the nonbonded force it
  is given and adds the new custom forces to the system before it fills them; the model
  returns the final values of the three objects, and the caller places them in the system
  in the order of the \<^verbatim>\<open>addForce\<close> calls.
\<close>

definition alchemicallyModifyLennardJones ::
  "NonbondedForce \<Rightarrow> int list \<Rightarrow> AlchemicalState
     \<Rightarrow> NonbondedForce \<times> CustomNonbondedForce \<times> CustomBondForce option" where
  "alchemicallyModifyLennardJones nonbonded_force alchemical_atom_indices alchemical_state =
     (let custom_nonbonded_force =
            (CustomNonbondedForce_new
               (custom_nonbonded_expression (annihilateLennardJones alchemical_state)))
              \<lparr> cn_globalParameters :=
                  [(''lennard_jones_lambda'', ligandLennardJones alchemical_state)],
                cn_perParticleParameters := [''sigma'', ''epsilon'', ''alchemical''] \<rparr>;
          custom_bond_force =
            (if annihilateLennardJones alchemical_state
             then Some ((CustomBondForce_new custom_bond_expression)
                          \<lparr> cb_globalParameters :=
                              [(''lennard_jones_lambda'', ligandLennardJones alchemical_state)],
                            cb_perBondParameters := [''sigma'', ''epsilon''] \<rparr>)
             else None);
          (nonbonded_force, custom_nonbonded_force) =
            fold (softcoreParticle alchemical_atom_indices)
                 [0 ..< length (nb_particles nonbonded_force)]
                 (nonbonded_force, custom_nonbonded_force);
          (nonbonded_force, custom_nonbonded_force, custom_bond_force) =
            fold (softcoreException alchemical_atom_indices alchemical_state)
                 [0 ..< length (nb_exceptions nonbonded_force)]
                 (nonbonded_force, custom_nonbonded_force, custom_bond_force);
          custom_nonbonded_force =
            custom_nonbonded_force
              \<lparr> cn_nonbondedMethod :=
                  (if nb_nonbondedMethod nonbonded_force \<in> {Ewald, PME} then CutoffPeriodic
                   else nb_nonbondedMethod nonbonded_force) \<rparr>;
          custom_nonbonded_force =
            custom_nonbonded_force \<lparr> cn_cutoffDistance := nb_cutoffDistance nonbonded_force \<rparr>
      in (nonbonded_force, custom_nonbonded_force, custom_bond_force))"

subsection \<open>Softcore generalized Born\<close>

text \<open>
  The per-particle lambdas are a numpy array: \<^verbatim>\<open>numpy.ones([n])\<close>, then an assignment
  through a list of indices. numpy counts a negative index from the end and raises
  IndexError for an index outside \<open>[-n, n)\<close>; reading one element past the end raises
  too. The array holds single-precision numbers; like every float here they are idealised
  as reals, so the rounding of the assigned factor is not modelled.
\<close>

definition numpy_ones :: "nat \<Rightarrow> real list" where
  "numpy_ones n = replicate n 1"

definition numpy_assign :: "real list \<Rightarrow> int list \<Rightarrow> real \<Rightarrow> error + real list" where
  "numpy_assign a indices v =
     (let n = int (length a)
      in if list_all (\<lambda>i. - n \<le> i \<and> i < n) indices
         then Inr (fold (\<lambda>i a. a[nat (if i < 0 then i + n else i) := v]) indices a)
         else Inl IndexError)"

definition numpy_item :: "real list \<Rightarrow> nat \<Rightarrow> error + real" where
  "numpy_item a i = (if i < length a then Inr (a ! i) else Inl IndexError)"

definition cg_addParticle :: "CustomGBForce \<Rightarrow> real list \<Rightarrow> CustomGBForce" where
  "cg_addParticle force p = force\<lparr>cg_particles := cg_particles force @ [p]\<rparr>"

definition born_integral_expression :: string where
  "born_integral_expression =
     ''lambda2*step(r+sr2-or1)*0.5*(1/L-1/U+0.25*(r-sr2^2/r)*(1/(U^2)-1/(L^2))+0.5*log(L/U)/r);''
     @ ''U=r+sr2;''
     @ ''L=max(or1, D);''
     @ ''D=abs(r-sr2);''
     @ ''sr2 = scale2*or2;''
     @ ''or1 = radius1-offset; or2 = radius2-offset''"

definition born_radius_expression :: string where
  "born_radius_expression =
     ''1/(1/or-tanh(psi-0.8*psi^2+4.85*psi^3)/radius);''
     @ ''psi=I*or; or=radius-offset''"

definition gb_pair_expression :: string where
  "gb_pair_expression =
     ''-138.935485*(1/soluteDielectric-1/solventDielectric)*q1*q2/f;''
     @ ''f=sqrt(r^2+B1*B2*exp(-r^2/(4*B1*B2)))''"

text \<open>The loop "Add particle parameters" of \<^verbatim>\<open>_createCustomSoftcoreGBOBC\<close>.\<close>

fun addSoftcoreGBParticles ::
  "GBSAOBCForce \<Rightarrow> real list \<Rightarrow> nat list \<Rightarrow> CustomGBForce \<Rightarrow> error + CustomGBForce" where
  "addSoftcoreGBParticles reference_force particle_lambdas [] custom = Inr custom"
| "addSoftcoreGBParticles reference_force particle_lambdas (particle_index # rest) custom =
     (case gb_particles reference_force ! particle_index of
        (charge, radius, scaling_factor) \<Rightarrow>
          (case numpy_item particle_lambdas particle_index of
             Inl e \<Rightarrow> Inl e
           | Inr lambda_factor \<Rightarrow>
               addSoftcoreGBParticles reference_force particle_lambdas rest
                 (cg_addParticle custom
                    [charge * lambda_factor, radius, scaling_factor, lambda_factor])))"

definition createCustomSoftcoreGBOBC ::
  "GBSAOBCForce \<Rightarrow> real list \<Rightarrow> string \<Rightarrow> error + CustomGBForce" where
  "createCustomSoftcoreGBOBC reference_force particle_lambdas sasa_model =
     (let custom =
            \<lparr> cg_perParticleParameters = [''q'', ''radius'', ''scale'', ''lambda''],
              cg_nonbondedMethod = gb_nonbondedMethod reference_force,
              cg_cutoffDistance = gb_cutoffDistance reference_force,
              cg_globalParameters =
                [(''solventDielectric'', gb_solventDielectric reference_force),
                 (''soluteDielectric'', gb_soluteDielectric reference_force),
                 (''offset'', 0.009)],
              cg_computedValues =
                [(''I'', born_integral_expression, ParticlePairNoExclusions),
                 (''B'', born_radius_expression, SingleParticle)],
              cg_energyTerms =
                [(''-0.5*138.935485*(1/soluteDielectric-1/solventDielectric)*q^2/B'', SingleParticle)]
                @ (if sasa_model = ''ACE''
                   then [(''lambda*28.3919551*(radius+0.14)^2*(radius/B)^6'', SingleParticle)]
                   else [])
                @ [(gb_pair_expression, ParticlePairNoExclusions)],
              cg_particles = [] \<rparr>
      in addSoftcoreGBParticles reference_force particle_lambdas
           [0 ..< length (gb_particles reference_force)] custom)"

subsection \<open>Custom external and custom bond terms\<close>

definition copyCustomExternalForce :: "CustomExternalForce \<Rightarrow> CustomExternalForce" where
  "copyCustomExternalForce reference_force =
     (let force = \<lparr> ce_energyFunction = ce_energyFunction reference_force,
                    ce_globalParameters = [], ce_perParticleParameters = [], ce_particles = [] \<rparr>;
          force = fold (\<lambda>parameter_index force.
                          force\<lparr>ce_globalParameters := ce_globalParameters force
                                   @ [ce_globalParameters reference_force ! parameter_index]\<rparr>)
                       [0 ..< length (ce_globalParameters reference_force)] force;
          force = fold (\<lambda>parameter_index force.
                          force\<lparr>ce_perParticleParameters := ce_perParticleParameters force
                                   @ [ce_perParticleParameters reference_force ! parameter_index]\<rparr>)
                       [0 ..< length (ce_perParticleParameters reference_force)] force
      in fold (\<lambda>index force.
                 force\<lparr>ce_particles := ce_particles force @ [ce_particles reference_force ! index]\<rparr>)
              [0 ..< length (ce_particles reference_force)] force)"

definition copyCustomBondForce :: "CustomBondForce \<Rightarrow> CustomBondForce" where
  "copyCustomBondForce reference_force =
     (let force = CustomBondForce_new (cb_energyFunction reference_force);
          force = fold (\<lambda>parameter_index force.
                          force\<lparr>cb_globalParameters := cb_globalParameters force
                                   @ [cb_globalParameters reference_force ! parameter_index]\<rparr>)
                       [0 ..< length (cb_globalParameters reference_force)] force;
          force = fold (\<lambda>parameter_index force.
                          force\<lparr>cb_perBondParameters := cb_perBondParameters force
                                   @ [cb_perBondParameters reference_force ! parameter_index]\<rparr>)
                       [0 ..< length (cb_perBondParameters reference_force)] force
      in fold (\<lambda>index force. addBond force (cb_bonds reference_force ! index))
              [0 ..< length (cb_bonds reference_force)] force)"

subsection \<open>Dispatch over the force terms\<close>

text \<open>
  One pass of the loop over the reference forces: the \<^verbatim>\<open>if/elif/else\<close> chain on the
  kind of the reference force. A Python object added to the system stays aliased with the
  local variable that is modified afterwards, so the system ends up with the final value
  of each object, at the position of its \<^verbatim>\<open>addForce\<close> call; the store-level model
  below follows the statements in their order and is shown to agree.
\<close>

fun perturbForce ::
  "'r Factory \<Rightarrow> AlchemicalState \<Rightarrow> Force \<Rightarrow> Force System \<Rightarrow> error + Force System" where
  "perturbForce self alchemical_state (PeriodicTorsion reference_force) system =
     Inr (addForce system
            (PeriodicTorsion (copyPeriodicTorsionForce self alchemical_state reference_force)))"
| "perturbForce self alchemical_state (Nonbonded reference_force) system =
     (let force = reference_force;
          force = (if ligandElectrostatics alchemical_state \<noteq> 1
                   then modifyElectrostatics self alchemical_state force else force)
      in if ligandLennardJones alchemical_state \<noteq> 1
         then (case alchemicallyModifyLennardJones force (ligand_atoms self) alchemical_state of
                 (force, custom_nonbonded_force, custom_bond_force) \<Rightarrow>
                   let system = addForce system (Nonbonded force);
                       system = addForce system (CustomNonbonded custom_nonbonded_force)
                   in Inr (case custom_bond_force of
                             None \<Rightarrow> system
                           | Some bond_force \<Rightarrow> addForce system (CustomBond bond_force)))
         else Inr (addForce system (Nonbonded force)))"
| "perturbForce self alchemical_state (GBSAOBC reference_force) system =
     (if ligandElectrostatics alchemical_state \<noteq> 1
      then (case numpy_assign (numpy_ones (getNumParticles system)) (ligand_atoms self)
                   (ligandElectrostatics alchemical_state) of
              Inl e \<Rightarrow> Inl e
            | Inr particle_lambdas \<Rightarrow>
                (case createCustomSoftcoreGBOBC reference_force particle_lambdas ''ACE'' of
                   Inl e \<Rightarrow> Inl e
                 | Inr custom_force \<Rightarrow> Inr (addForce system (CustomGB custom_force))))
      else Inr (addForce system (GBSAOBC reference_force)))"
| "perturbForce self alchemical_state (CustomExternal reference_force) system =
     Inr (addForce system (CustomExternal (copyCustomExternalForce reference_force)))"
| "perturbForce self alchemical_state (CustomBond reference_force) system =
     Inr (addForce system (CustomBond (copyCustomBondForce reference_force)))"
| "perturbForce self alchemical_state reference_force system =
     Inr (addForce system reference_force)"

text \<open>The loop over \<^verbatim>\<open>range(nforces)\<close>; an exception ends it.\<close>

fun perturbForces ::
  "Force System Factory \<Rightarrow> AlchemicalState \<Rightarrow> nat list \<Rightarrow> Force System
     \<Rightarrow> error + Force System" where
  "perturbForces self alchemical_state [] system = Inr system"
| "perturbForces self alchemical_state (force_index # rest) system =
     (case perturbForce self alchemical_state
             (forces (reference_system self) ! force_index) system of
        Inl e \<Rightarrow> Inl e
      | Inr system \<Rightarrow> perturbForces self alchemical_state rest system)"

definition createPerturbedSystem ::
  "Force System Factory \<Rightarrow> AlchemicalState \<Rightarrow> error + Force System" where
  "createPerturbedSystem self alchemical_state =
     (let reference_system = reference_system self;
          system = System_new;
          system = system\<lparr>periodicBoxVectors := periodicBoxVectors reference_system\<rparr>;
          system = fold (\<lambda>atom_index system.
                           addParticle system (particleMasses reference_system ! atom_index))
                        [0 ..< getNumParticles reference_system] system;
          system = fold (\<lambda>constraint_index system.
                           addConstraint system (constraints reference_system ! constraint_index))
                        [0 ..< length (constraints reference_system)] system
      in perturbForces self alchemical_state
           [0 ..< length (forces reference_system)] system)"

text \<open>\<^verbatim>\<open>createPerturbedSystems\<close>: one build per state, in order.\<close>

fun createPerturbedSystems ::
  "Force System Factory \<Rightarrow> AlchemicalState list \<Rightarrow> error + Force System list" where
  "createPerturbedSystems self [] = Inr []"
| "createPerturbedSystems self (alchemical_state # rest) =
     (case createPerturbedSystem self alchemical_state of
        Inl e \<Rightarrow> Inl e
      | Inr system \<Rightarrow>
          (case createPerturbedSystems self rest of
             Inl e \<Rightarrow> Inl e
           | Inr systems \<Rightarrow> Inr (system # systems)))"

section \<open>Objects in a store\<close>

text \<open>
  Python variables hold references. To state what a build may change, the system and
  force objects are placed in a store: an object's address is its position, a new object is
  appended, a method that mutates an object replaces the entry at its address. A system
  object holds the addresses of its force objects. The loops that fill or rewrite one
  object are the functions of the previous section, applied to the entry at the object's
  address; statements follow the order of the source.
\<close>

record Store =
  system_objects :: "nat System list"
  force_objects :: "Force list"

definition new_system :: "nat System \<Rightarrow> Store \<Rightarrow> nat \<times> Store" where
  "new_system v s = (length (system_objects s), s\<lparr>system_objects := system_objects s @ [v]\<rparr>)"

definition new_force :: "Force \<Rightarrow> Store \<Rightarrow> nat \<times> Store" where
  "new_force v s = (length (force_objects s), s\<lparr>force_objects := force_objects s @ [v]\<rparr>)"

definition update_system :: "nat \<Rightarrow> (nat System \<Rightarrow> nat System) \<Rightarrow> Store \<Rightarrow> Store" where
  "update_system a f s = s\<lparr>system_objects := (system_objects s)[a := f (system_objects s ! a)]\<rparr>"

definition update_force :: "nat \<Rightarrow> (Force \<Rightarrow> Force) \<Rightarrow> Store \<Rightarrow> Store" where
  "update_force a f s = s\<lparr>force_objects := (force_objects s)[a := f (force_objects s ! a)]\<rparr>"

text \<open>The system an address stands for: the system object with its force objects read out.\<close>

definition load_system :: "Store \<Rightarrow> nat \<Rightarrow> Force System" where
  "load_system s a =
     \<lparr> periodicBoxVectors = periodicBoxVectors (system_objects s ! a),
       particleMasses = particleMasses (system_objects s ! a),
       constraints = constraints (system_objects s ! a),
       forces = map (\<lambda>f. force_objects s ! f) (forces (system_objects s ! a)) \<rparr>"

text \<open>
  \<^verbatim>\<open>copy.deepcopy(reference_system)\<close> in \<^verbatim>\<open>__init__\<close>: new force objects with the
  values of the original's, and a new system object that refers to them.
\<close>

definition deepcopy_system :: "nat \<Rightarrow> Store \<Rightarrow> nat \<times> Store" where
  "deepcopy_system a s =
     (let original = system_objects s ! a;
          n = length (force_objects s);
          s = s\<lparr>force_objects := force_objects s
                  @ map (\<lambda>f. force_objects s ! f) (forces original)\<rparr>
      in new_system (original\<lparr>forces := [n ..< n + length (forces original)]\<rparr>) s)"

definition Factory_init_store :: "nat \<Rightarrow> int list \<Rightarrow> Store \<Rightarrow> (error + nat Factory) \<times> Store" where
  "Factory_init_store reference_system0 ligand_atoms0 s =
     (case deepcopy_system reference_system0 s of
        (copied, s) \<Rightarrow>
          (Inr \<lparr> reference_system = copied,
                 ligand_atoms = ligand_atoms0,
                 ligand_atomset = set ligand_atoms0 \<rparr>, s))"

text \<open>
  \<^verbatim>\<open>_alchemicallyModifyLennardJones\<close> on objects: the two custom forces are created and
  added to the system, then the loops write to the nonbonded force and to the custom
  forces.
\<close>

definition alchemicallyModifyLennardJones_store ::
  "nat \<Rightarrow> nat \<Rightarrow> int list \<Rightarrow> AlchemicalState \<Rightarrow> Store \<Rightarrow> Store" where
  "alchemicallyModifyLennardJones_store system nonbonded_force alchemical_atom_indices
       alchemical_state s =
     (case new_force (CustomNonbonded (CustomNonbondedForce_new
                        (custom_nonbonded_expression (annihilateLennardJones alchemical_state)))) s of
        (custom_nonbonded_force, s) \<Rightarrow>
          let s = update_system system (\<lambda>sys. addForce sys custom_nonbonded_force) s;
              (custom_bond_force, s) =
                (if annihilateLennardJones alchemical_state
                 then (case new_force (CustomBond (CustomBondForce_new custom_bond_expression)) s of
                         (bond_force, s) \<Rightarrow>
                           (Some bond_force,
                            update_system system (\<lambda>sys. addForce sys bond_force) s))
                 else (None, s))
          in (case force_objects s ! nonbonded_force of
                Nonbonded nb \<Rightarrow>
                  (case alchemicallyModifyLennardJones nb alchemical_atom_indices alchemical_state of
                     (nb', cn', cb') \<Rightarrow>
                       let s = update_force nonbonded_force (\<lambda>_. Nonbonded nb') s;
                           s = update_force custom_nonbonded_force (\<lambda>_. CustomNonbonded cn') s
                       in (case (custom_bond_force, cb') of
                             (Some bond_force, Some cb'') \<Rightarrow>
                               update_force bond_force (\<lambda>_. CustomBond cb'') s
                           | _ \<Rightarrow> s))
              | _ \<Rightarrow> s))"

text \<open>One pass of the loop over the reference forces, on objects.\<close>

definition perturbForce_store ::
  "nat Factory \<Rightarrow> AlchemicalState \<Rightarrow> nat \<Rightarrow> nat \<Rightarrow> Store \<Rightarrow> error option \<times> Store" where
  "perturbForce_store self alchemical_state reference_force system s =
     (case force_objects s ! reference_force of
        PeriodicTorsion rf \<Rightarrow>
          (case new_force (PeriodicTorsion (copyPeriodicTorsionForce self alchemical_state rf)) s of
             (force, s) \<Rightarrow> (None, update_system system (\<lambda>sys. addForce sys force) s))
      | Nonbonded rf \<Rightarrow>
          (case new_force (Nonbonded rf) s of
             (force, s) \<Rightarrow>
               let s = update_system system (\<lambda>sys. addForce sys force) s;
                   s = (if ligandElectrostatics alchemical_state \<noteq> 1
                        then update_force force
                               (\<lambda>f. case f of
                                       Nonbonded nb \<Rightarrow>
                                         Nonbonded (modifyElectrostatics self alchemical_state nb)
                                     | _ \<Rightarrow> f) s
                        else s);
                   s = (if ligandLennardJones alchemical_state \<noteq> 1
                        then alchemicallyModifyLennardJones_store system force
                               (ligand_atoms self) alchemical_state s
                        else s)
               in (None, s))
      | GBSAOBC rf \<Rightarrow>
          (if ligandElectrostatics alchemical_state \<noteq> 1
           then (case numpy_assign (numpy_ones (getNumParticles (system_objects s ! system)))
                        (ligand_atoms self) (ligandElectrostatics alchemical_state) of
                   Inl e \<Rightarrow> (Some e, s)
                 | Inr particle_lambdas \<Rightarrow>
                     (case createCustomSoftcoreGBOBC rf particle_lambdas ''ACE'' of
                        Inl e \<Rightarrow> (Some e, s)
                      | Inr custom \<Rightarrow>
                          (case new_force (CustomGB custom) s of
                             (custom_force, s) \<Rightarrow>
                               (None, update_system system (\<lambda>sys. addForce sys custom_force) s))))
           else (case new_force (GBSAOBC rf) s of
                   (force, s) \<Rightarrow> (None, update_system system (\<lambda>sys. addForce sys force) s)))
      | CustomExternal rf \<Rightarrow>
          (case new_force (CustomExternal (copyCustomExternalForce rf)) s of
             (force, s) \<Rightarrow> (None, update_system system (\<lambda>sys. addForce sys force) s))
      | CustomBond rf \<Rightarrow>
          (case new_force (CustomBond (copyCustomBondForce rf)) s of
             (force, s) \<Rightarrow> (None, update_system system (\<lambda>sys. addForce sys force) s))
      | other \<Rightarrow>
          (case new_force other s of
             (force, s) \<Rightarrow> (None, update_system system (\<lambda>sys. addForce sys force) s)))"

fun perturbForces_store ::
  "nat Factory \<Rightarrow> AlchemicalState \<Rightarrow> nat list \<Rightarrow> nat \<Rightarrow> Store \<Rightarrow> error option \<times> Store" where
  "perturbForces_store self alchemical_state [] system s = (None, s)"
| "perturbForces_store self alchemical_state (force_index # rest) system s =
     (case perturbForce_store self alchemical_state
             (forces (system_objects s ! reference_system self) ! force_index) system s of
        (Some e, s) \<Rightarrow> (Some e, s)
      | (None, s) \<Rightarrow> perturbForces_store self alchemical_state rest system s)"

definition createPerturbedSystem_store ::
  "nat Factory \<Rightarrow> AlchemicalState \<Rightarrow> Store \<Rightarrow> (error + nat) \<times> Store" where
  "createPerturbedSystem_store self alchemical_state s =
     (let reference = system_objects s ! reference_system self
      in case new_system System_new s of
           (system, s) \<Rightarrow>
             let s = update_system system
                       (\<lambda>sys. sys\<lparr>periodicBoxVectors := periodicBoxVectors reference\<rparr>) s;
                 s = update_system system
                       (fold (\<lambda>atom_index sys. addParticle sys (particleMasses reference ! atom_index))
                             [0 ..< getNumParticles reference]) s;
                 s = update_system system
                       (fold (\<lambda>constraint_index sys.
                                addConstraint sys (constraints reference ! constraint_index))
                             [0 ..< length (constraints reference)]) s
             in (case perturbForces_store self alchemical_state
                        [0 ..< length (forces reference)] system s of
                   (Some e, s) \<Rightarrow> (Inl e, s)
                 | (None, s) \<Rightarrow> (Inr system, s)))"

fun createPerturbedSystems_store ::
  "nat Factory \<Rightarrow> AlchemicalState list \<Rightarrow> Store \<Rightarrow> (error + nat list) \<times> Store" where
  "createPerturbedSystems_store self [] s = (Inr [], s)"
| "createPerturbedSystems_store self (alchemical_state # rest) s =
     (case createPerturbedSystem_store self alchemical_state s of
        (Inl e, s) \<Rightarrow> (Inl e, s)
      | (Inr system, s) \<Rightarrow>
          (case createPerturbedSystems_store self rest s of
             (Inl e, s) \<Rightarrow> (Inl e, s)
           | (Inr systems, s) \<Rightarrow> (Inr (system # systems), s)))"

text \<open>
  What a build leaves behind, relative to the store \<open>base\<close> it started from: every object
  of \<open>base\<close> is still there with its value, and the system at address \<open>system\<close> and
  all force objects it refers to were created after \<open>base\<close>.
\<close>

definition built_after :: "Store \<Rightarrow> nat \<Rightarrow> Store \<Rightarrow> bool" where
  "built_after base system s \<longleftrightarrow>
     prefix (system_objects base) (system_objects s)
   \<and> prefix (force_objects base) (force_objects s)
   \<and> length (system_objects base) \<le> system \<and> system < length (system_objects s)
   \<and> list_all (\<lambda>a. length (force_objects base) \<le> a \<and> a < length (force_objects s))
        (forces (system_objects s ! system))"

section \<open>The softcore pair energy\<close>

text \<open>
  The energy expression handed to the engine, read as a function of the pair's mixed
  parameters, the pair's lambda and the distance. The engine's \<^verbatim>\<open>^\<close> is the real power;
  on the nonnegative bases that occur it is \<^term>\<open>(powr)\<close> (the two differ only in
  \<open>0 ^ 0\<close>, which does not occur for positive exponents).
\<close>

definition softcore_denominator :: "real \<Rightarrow> real \<Rightarrow> real \<Rightarrow> real \<Rightarrow> real \<Rightarrow> real \<Rightarrow> real" where
  "softcore_denominator alpha b c sigma lambda r =
     alpha * (1 - lambda) powr b + (r / sigma) powr c"

definition softcore_x :: "real \<Rightarrow> real \<Rightarrow> real \<Rightarrow> real \<Rightarrow> real \<Rightarrow> real \<Rightarrow> real" where
  "softcore_x alpha b c sigma lambda r =
     (1 / softcore_denominator alpha b c sigma lambda r) powr (6 / c)"

definition softcore_energy ::
  "real \<Rightarrow> real \<Rightarrow> real \<Rightarrow> real \<Rightarrow> real \<Rightarrow> real \<Rightarrow> real \<Rightarrow> real \<Rightarrow> real" where
  "softcore_energy alpha a b c epsilon sigma lambda r =
     4 * epsilon * (lambda powr a) * softcore_x alpha b c sigma lambda r
       * (softcore_x alpha b c sigma lambda r - 1)"

section \<open>Closed forms of the loops\<close>

lemma fold_update_upt:
  "n \<le> length xs \<Longrightarrow>
   fold (\<lambda>i xs. xs[i := g i (xs ! i)]) [0 ..< n] xs
     = map (\<lambda>i. if i < n then g i (xs ! i) else xs ! i) [0 ..< length xs]"
proof (induction n)
  case 0
  then show ?case by (simp add: map_nth)
next
  case (Suc n)
  then have n: "n < length xs" by simp
  let ?ys = "map (\<lambda>i. if i < n then g i (xs ! i) else xs ! i) [0 ..< length xs]"
  have "fold (\<lambda>i xs. xs[i := g i (xs ! i)]) [0 ..< Suc n] xs = ?ys[n := g n (?ys ! n)]"
    using Suc by simp
  also have "\<dots> = map (\<lambda>i. if i < Suc n then g i (xs ! i) else xs ! i) [0 ..< length xs]"
    using n by (intro nth_equalityI) (auto simp: nth_list_update less_Suc_eq)
  finally show ?case .
qed

lemma fold_update_all:
  "fold (\<lambda>i xs. xs[i := g i (xs ! i)]) [0 ..< length xs] xs
     = map (\<lambda>i. g i (xs ! i)) [0 ..< length xs]"
  by (simp add: fold_update_upt)

lemma map_nth_upt: "map (\<lambda>i. h (xs ! i)) [0 ..< length xs] = map h xs"
  by (simp add: map_nth flip: map_map[unfolded comp_def])

lemma fold_addTorsion:
  "fold (\<lambda>i force. addTorsion force (h i)) ns force
     = force\<lparr>torsions := torsions force @ map h ns\<rparr>"
  by (induction ns arbitrary: force) (simp_all add: addTorsion_def)

lemma copyPeriodicTorsionForce_map:
  "copyPeriodicTorsionForce self st rf =
     \<lparr> torsions = map (\<lambda>(p1, p2, p3, p4, periodicity, phase, k).
                          (p1, p2, p3, p4, periodicity, phase,
                           if {p1, p2, p3, p4} \<subseteq> ligand_atomset self then k * ligandTorsions st else k))
                      (torsions rf) \<rparr>"
proof -
  let ?h = "\<lambda>(p1, p2, p3, p4, periodicity, phase, k).
                          (p1, p2, p3, p4, periodicity, phase,
                           if {p1, p2, p3, p4} \<subseteq> ligand_atomset self then k * ligandTorsions st else k)"
  have "copyPeriodicTorsionForce self st rf
          = fold (\<lambda>i force. addTorsion force (?h (torsions rf ! i))) [0 ..< length (torsions rf)] \<lparr> torsions = [] \<rparr>"
    unfolding copyPeriodicTorsionForce_def
    by (rule arg_cong[where f="\<lambda>f. fold f _ _"]) (auto simp: fun_eq_iff Let_def split: prod.splits)
  also have "\<dots> = \<lparr> torsions = map (\<lambda>i. ?h (torsions rf ! i)) [0 ..< length (torsions rf)] \<rparr>"
    by (simp add: fold_addTorsion)
  also have "map (\<lambda>i. ?h (torsions rf ! i)) [0 ..< length (torsions rf)] = map ?h (torsions rf)"
    by (simp add: map_nth flip: map_map[unfolded comp_def])
  finally show ?thesis .
qed

lemma fold_scaleParticleCharge:
  "fold (scaleParticleCharge self st) ns force
     = force\<lparr>nb_particles :=
         fold (\<lambda>i xs. xs[i := (case xs ! i of (charge, sigma, epsilon) \<Rightarrow>
                 (if int i \<in> ligand_atomset self then charge * ligandElectrostatics st else charge,
                  sigma, epsilon))]) ns (nb_particles force)\<rparr>"
  by (induction ns arbitrary: force)
     (simp_all add: scaleParticleCharge_def setParticleParameters_def Let_def split: prod.splits)

lemma fold_scaleExceptionChargeprod:
  "fold (scaleExceptionChargeprod self st) ns force
     = force\<lparr>nb_exceptions :=
         fold (\<lambda>i xs. xs[i := (case xs ! i of (iatom, jatom, chargeprod, sigma, epsilon) \<Rightarrow>
                 (iatom, jatom,
                  if iatom \<in> ligand_atomset self \<and> jatom \<in> ligand_atomset self
                     \<and> annihilateElectrostatics st
                  then chargeprod * (ligandElectrostatics st)\<^sup>2 else chargeprod,
                  sigma, epsilon))]) ns (nb_exceptions force)\<rparr>"
  by (induction ns arbitrary: force)
     (simp_all add: scaleExceptionChargeprod_def setExceptionParameters_def Let_def split: prod.splits)

lemma modifyElectrostatics_eq:
  "modifyElectrostatics self st force =
     force\<lparr> nb_particles :=
              map (\<lambda>i. case nb_particles force ! i of (charge, sigma, epsilon) \<Rightarrow>
                     (if int i \<in> ligand_atomset self then charge * ligandElectrostatics st else charge,
                      sigma, epsilon))
                  [0 ..< length (nb_particles force)],
            nb_exceptions :=
              map (\<lambda>(iatom, jatom, chargeprod, sigma, epsilon).
                     (iatom, jatom,
                      if iatom \<in> ligand_atomset self \<and> jatom \<in> ligand_atomset self
                         \<and> annihilateElectrostatics st
                      then chargeprod * (ligandElectrostatics st)\<^sup>2 else chargeprod,
                      sigma, epsilon))
                  (nb_exceptions force) \<rparr>"
proof -
  let ?gp = "\<lambda>i (p :: real \<times> real \<times> real). case p of (charge, sigma, epsilon) \<Rightarrow>
                 (if int i \<in> ligand_atomset self then charge * ligandElectrostatics st else charge,
                  sigma, epsilon)"
  let ?ge = "\<lambda>(i::nat) (e :: int \<times> int \<times> real \<times> real \<times> real).
               case e of (iatom, jatom, chargeprod, sigma, epsilon) \<Rightarrow>
                 (iatom, jatom,
                  if iatom \<in> ligand_atomset self \<and> jatom \<in> ligand_atomset self
                     \<and> annihilateElectrostatics st
                  then chargeprod * (ligandElectrostatics st)\<^sup>2 else chargeprod,
                  sigma, epsilon)"
  have p: "fold (scaleParticleCharge self st) [0 ..< length (nb_particles force)] force
             = force\<lparr>nb_particles := map (\<lambda>i. ?gp i (nb_particles force ! i)) [0 ..< length (nb_particles force)]\<rparr>"
    by (simp only: fold_scaleParticleCharge fold_update_all[where g = ?gp])
  have e: "fold (scaleExceptionChargeprod self st) [0 ..< length (nb_exceptions f)] f
             = f\<lparr>nb_exceptions := map (?ge 0) (nb_exceptions f)\<rparr>" for f
    by (simp only: fold_scaleExceptionChargeprod fold_update_all[where g = ?ge] map_nth_upt)
  show ?thesis
    unfolding modifyElectrostatics_def Let_def p
    by (subst e) simp
qed

lemma map_upd_Suc:
  "n < length xs \<Longrightarrow>
   (map (\<lambda>i. if i < n then g i (xs ! i) else xs ! i) [0 ..< length xs])[n := g n (xs ! n)]
     = map (\<lambda>i. if i < Suc n then g i (xs ! i) else xs ! i) [0 ..< length xs]"
  by (intro nth_equalityI) (auto simp: nth_list_update less_Suc_eq)

lemma map_skip_Suc:
  "n < length xs \<Longrightarrow> g n (xs ! n) = xs ! n \<Longrightarrow>
   map (\<lambda>i. if i < n then g i (xs ! i) else xs ! i) [0 ..< length xs]
     = map (\<lambda>i. if i < Suc n then g i (xs ! i) else xs ! i) [0 ..< length xs]"
  by (intro nth_equalityI) (auto simp: less_Suc_eq)

lemma fold_softcoreParticle:
  fixes L :: "int list" and nb :: NonbondedForce and cn :: CustomNonbondedForce
  defines "ps \<equiv> nb_particles nb"
  defines "gz \<equiv> \<lambda>(i::nat) (p :: real \<times> real \<times> real).
                  if int i \<in> set L then (fst p, fst (snd p), 0) else p"
  defines "hp \<equiv> \<lambda>(i::nat). [fst (snd (ps ! i)), snd (snd (ps ! i)), if int i \<in> set L then 1 else 0]"
  assumes "n \<le> length ps"
  shows "fold (softcoreParticle L) [0 ..< n] (nb, cn)
           = (nb\<lparr>nb_particles := map (\<lambda>i. if i < n then gz i (ps ! i) else ps ! i) [0 ..< length ps]\<rparr>,
              cn\<lparr>cn_particles := cn_particles cn @ map hp [0 ..< n]\<rparr>)"
  using assms(4)
proof (induction n)
  case 0
  then show ?case by (simp add: map_nth ps_def)
next
  case (Suc n)
  then have n: "n < length ps" by simp
  let ?xs = "map (\<lambda>i. if i < n then gz i (ps ! i) else ps ! i) [0 ..< length ps]"
  have at_n: "?xs ! n = ps ! n" using n by simp
  have step: "fold (softcoreParticle L) [0 ..< Suc n] (nb, cn)
                = softcoreParticle L n (nb\<lparr>nb_particles := ?xs\<rparr>, cn\<lparr>cn_particles := cn_particles cn @ map hp [0 ..< n]\<rparr>)"
    using Suc by simp
  show ?case
  proof (cases "int n \<in> set L")
    case True
    have "?xs[n := gz n (ps ! n)] = map (\<lambda>i. if i < Suc n then gz i (ps ! i) else ps ! i) [0 ..< length ps]"
      using n by (rule map_upd_Suc)
    moreover have "gz n (ps ! n) = (fst (ps ! n), fst (snd (ps ! n)), 0)"
      using True by (simp add: gz_def)
    ultimately show ?thesis
      unfolding step using True at_n
      by (simp add: softcoreParticle_def setParticleParameters_def cn_addParticle_def hp_def
               case_prod_beta)
  next
    case False
    have "gz n (ps ! n) = ps ! n" using False by (simp add: gz_def)
    then have "?xs = map (\<lambda>i. if i < Suc n then gz i (ps ! i) else ps ! i) [0 ..< length ps]"
      using n by (intro map_skip_Suc)
    then show ?thesis
      unfolding step using False at_n
      by (simp add: softcoreParticle_def cn_addParticle_def hp_def case_prod_beta)
  qed
qed

lemma fold_softcoreException:
  fixes L :: "int list" and nb :: NonbondedForce and cn :: CustomNonbondedForce
    and st :: AlchemicalState
  defines "es \<equiv> nb_exceptions nb"
  defines "both \<equiv> \<lambda>k. annihilateLennardJones st \<and> fst (es ! k) \<in> set L \<and> fst (snd (es ! k)) \<in> set L"
  defines "gx \<equiv> \<lambda>(k::nat) (e :: int \<times> int \<times> real \<times> real \<times> real).
                  if both k then (fst e, fst (snd e), fst (snd (snd e)), fst (snd (snd (snd e))), 0) else e"
  defines "bond \<equiv> \<lambda>k. (fst (es ! k), fst (snd (es ! k)),
                         [fst (snd (snd (snd (es ! k)))), snd (snd (snd (snd (es ! k))))])"
  assumes "n \<le> length es"
  shows "fold (softcoreException L st) [0 ..< n] (nb, cn, cb)
           = (nb\<lparr>nb_exceptions := map (\<lambda>k. if k < n then gx k (es ! k) else es ! k) [0 ..< length es]\<rparr>,
              cn\<lparr>cn_exclusions := cn_exclusions cn @ map (\<lambda>k. (fst (es ! k), fst (snd (es ! k)))) [0 ..< n]\<rparr>,
              map_option (\<lambda>f. f\<lparr>cb_bonds := cb_bonds f @ map bond (filter both [0 ..< n])\<rparr>) cb)"
  using assms(5)
proof (induction n)
  case 0
  then show ?case by (cases cb) (simp_all add: map_nth es_def)
next
  case (Suc n)
  then have n: "n < length es" by simp
  let ?xs = "map (\<lambda>k. if k < n then gx k (es ! k) else es ! k) [0 ..< length es]"
  have at_n: "?xs ! n = es ! n" using n by simp
  have step: "fold (softcoreException L st) [0 ..< Suc n] (nb, cn, cb)
                = softcoreException L st n
                    (nb\<lparr>nb_exceptions := ?xs\<rparr>,
                     cn\<lparr>cn_exclusions := cn_exclusions cn @ map (\<lambda>k. (fst (es ! k), fst (snd (es ! k)))) [0 ..< n]\<rparr>,
                     map_option (\<lambda>f. f\<lparr>cb_bonds := cb_bonds f @ map bond (filter both [0 ..< n])\<rparr>) cb)"
    using Suc by simp
  show ?case
  proof (cases "both n")
    case True
    have upd: "?xs[n := (fst (es ! n), fst (snd (es ! n)), fst (snd (snd (es ! n))),
                         fst (snd (snd (snd (es ! n)))), 0)]
                 = map (\<lambda>k. if k < Suc n then gx k (es ! k) else es ! k) [0 ..< length es]"
      using map_upd_Suc[OF n, where g = gx] True by (simp add: gx_def)
    have cond: "annihilateLennardJones st \<and> fst (es ! n) \<in> set L \<and> fst (snd (es ! n)) \<in> set L"
      using True by (simp add: both_def)
    show ?thesis
      unfolding step
      by (cases cb)
         (simp_all add: softcoreException_def setExceptionParameters_def addExclusion_def
            addBond_def bond_def case_prod_beta Let_def at_n upd cond True)
  next
    case False
    have "gx n (es ! n) = es ! n" using False by (simp add: gx_def)
    then have skip: "?xs = map (\<lambda>k. if k < Suc n then gx k (es ! k) else es ! k) [0 ..< length es]"
      using n by (intro map_skip_Suc)
    have cond: "\<not> (annihilateLennardJones st \<and> fst (es ! n) \<in> set L \<and> fst (snd (es ! n)) \<in> set L)"
      using False by (simp add: both_def)
    show ?thesis
      unfolding step skip[symmetric]
      by (cases cb)
         (simp_all add: softcoreException_def addExclusion_def case_prod_beta Let_def at_n cond False)
  qed
qed

lemma fold_softcoreParticle_all:
  "fold (softcoreParticle L) [0 ..< length (nb_particles nb)] (nb, cn)
     = (nb\<lparr>nb_particles :=
            map (\<lambda>i. if int i \<in> set L
                     then (fst (nb_particles nb ! i), fst (snd (nb_particles nb ! i)), 0)
                     else nb_particles nb ! i)
                [0 ..< length (nb_particles nb)]\<rparr>,
        cn\<lparr>cn_particles := cn_particles cn
            @ map (\<lambda>i. [fst (snd (nb_particles nb ! i)), snd (snd (nb_particles nb ! i)),
                        if int i \<in> set L then 1 else 0])
                  [0 ..< length (nb_particles nb)]\<rparr>)"
  by (subst fold_softcoreParticle) simp_all

lemma fold_softcoreException_all:
  "fold (softcoreException L st) [0 ..< length (nb_exceptions nb)] (nb, cn, cb)
     = (nb\<lparr>nb_exceptions :=
            map (\<lambda>e. if annihilateLennardJones st \<and> fst e \<in> set L \<and> fst (snd e) \<in> set L
                     then (fst e, fst (snd e), fst (snd (snd e)), fst (snd (snd (snd e))), 0)
                     else e)
                (nb_exceptions nb)\<rparr>,
        cn\<lparr>cn_exclusions := cn_exclusions cn @ map (\<lambda>e. (fst e, fst (snd e))) (nb_exceptions nb)\<rparr>,
        map_option
          (\<lambda>f. f\<lparr>cb_bonds := cb_bonds f
                  @ map (\<lambda>e. (fst e, fst (snd e), [fst (snd (snd (snd e))), snd (snd (snd (snd e)))]))
                        (filter (\<lambda>e. annihilateLennardJones st \<and> fst e \<in> set L \<and> fst (snd e) \<in> set L)
                                (nb_exceptions nb))\<rparr>)
          cb)"
proof -
  let ?es = "nb_exceptions nb"
  let ?both = "\<lambda>e :: int \<times> int \<times> real \<times> real \<times> real.
                 annihilateLennardJones st \<and> fst e \<in> set L \<and> fst (snd e) \<in> set L"
  let ?bond = "\<lambda>e :: int \<times> int \<times> real \<times> real \<times> real.
                 (fst e, fst (snd e), [fst (snd (snd (snd e))), snd (snd (snd (snd e)))])"
  have bonds: "map (\<lambda>k. ?bond (?es ! k)) (filter (\<lambda>k. ?both (?es ! k)) [0 ..< length ?es])
               = map ?bond (filter ?both ?es)"
  proof -
    have "filter ?both ?es = filter ?both (map (\<lambda>k. ?es ! k) [0 ..< length ?es])"
      by (simp add: map_nth)
    also have "\<dots> = map (\<lambda>k. ?es ! k) (filter (\<lambda>k. ?both (?es ! k)) [0 ..< length ?es])"
      by (simp add: filter_map comp_def)
    finally show ?thesis by (simp add: comp_def)
  qed
  have exs: "map (\<lambda>k. if k < length ?es
                       then (if ?both (?es ! k)
                             then (fst (?es ! k), fst (snd (?es ! k)), fst (snd (snd (?es ! k))),
                                   fst (snd (snd (snd (?es ! k)))), 0)
                             else ?es ! k)
                       else ?es ! k) [0 ..< length ?es]
             = map (\<lambda>e. if ?both e
                      then (fst e, fst (snd e), fst (snd (snd e)), fst (snd (snd (snd e))), 0)
                      else e) ?es"
    by (intro nth_equalityI) simp_all
  have excl: "map (\<lambda>k. (fst (?es ! k), fst (snd (?es ! k)))) [0 ..< length ?es]
                = map (\<lambda>e. (fst e, fst (snd e))) ?es"
    by (intro nth_equalityI) simp_all
  show ?thesis
    by (subst fold_softcoreException) (simp_all only: order_refl bonds exs excl)
qed

lemma alchemicallyModifyLennardJones_eq:
  "alchemicallyModifyLennardJones nb L st =
    (nb\<lparr> nb_particles :=
            map (\<lambda>i. if int i \<in> set L
                     then (fst (nb_particles nb ! i), fst (snd (nb_particles nb ! i)), 0)
                     else nb_particles nb ! i)
                [0 ..< length (nb_particles nb)],
          nb_exceptions :=
            map (\<lambda>e. if annihilateLennardJones st \<and> fst e \<in> set L \<and> fst (snd e) \<in> set L
                      then (fst e, fst (snd e), fst (snd (snd e)), fst (snd (snd (snd e))), 0)
                      else e) (nb_exceptions nb) \<rparr>,
     \<lparr> cn_energyFunction = custom_nonbonded_expression (annihilateLennardJones st),
       cn_globalParameters = [(''lennard_jones_lambda'', ligandLennardJones st)],
       cn_perParticleParameters = [''sigma'', ''epsilon'', ''alchemical''],
       cn_particles =
         map (\<lambda>i. [fst (snd (nb_particles nb ! i)), snd (snd (nb_particles nb ! i)),
                    if int i \<in> set L then 1 else 0])
             [0 ..< length (nb_particles nb)],
       cn_exclusions = map (\<lambda>e. (fst e, fst (snd e))) (nb_exceptions nb),
       cn_nonbondedMethod =
         (if nb_nonbondedMethod nb \<in> {Ewald, PME} then CutoffPeriodic else nb_nonbondedMethod nb),
       cn_cutoffDistance = nb_cutoffDistance nb \<rparr>,
     if annihilateLennardJones st
     then Some \<lparr> cb_energyFunction = custom_bond_expression,
                 cb_globalParameters = [(''lennard_jones_lambda'', ligandLennardJones st)],
                 cb_perBondParameters = [''sigma'', ''epsilon''],
                 cb_bonds = map (\<lambda>e. (fst e, fst (snd e),
                                        [fst (snd (snd (snd e))), snd (snd (snd (snd e)))]))
                                (filter (\<lambda>e. annihilateLennardJones st \<and> fst e \<in> set L
                                              \<and> fst (snd e) \<in> set L) (nb_exceptions nb)) \<rparr>
     else None)"
  unfolding alchemicallyModifyLennardJones_def Let_def
  by (simp only: fold_softcoreParticle_all prod.case fold_softcoreException_all)
     (simp add: CustomNonbondedForce_new_def CustomBondForce_new_def)

lemma alchemicallyModifyLennardJones_keeps_charges:
  "map (\<lambda>(charge, sigma, epsilon). (charge, sigma))
       (nb_particles (fst (alchemicallyModifyLennardJones nb L st)))
     = map (\<lambda>(charge, sigma, epsilon). (charge, sigma)) (nb_particles nb)"
  "map (\<lambda>(iatom, jatom, chargeprod, sigma, epsilon). (iatom, jatom, chargeprod, sigma))
       (nb_exceptions (fst (alchemicallyModifyLennardJones nb L st)))
     = map (\<lambda>(iatom, jatom, chargeprod, sigma, epsilon). (iatom, jatom, chargeprod, sigma))
           (nb_exceptions nb)"
  unfolding alchemicallyModifyLennardJones_eq
  by (intro nth_equalityI; simp add: case_prod_beta)+



lemma fold_addParticle:
  "fold (\<lambda>i system. addParticle system (h i)) ns system
     = system\<lparr>particleMasses := particleMasses system @ map h ns\<rparr>"
  by (induction ns arbitrary: system) (simp_all add: addParticle_def)

lemma fold_addConstraint:
  "fold (\<lambda>i system. addConstraint system (h i)) ns system
     = system\<lparr>constraints := constraints system @ map h ns\<rparr>"
  by (induction ns arbitrary: system) (simp_all add: addConstraint_def)

section \<open>Structure of a build\<close>

lemma createPerturbedSystem_eq:
  "createPerturbedSystem self st =
     perturbForces self st [0 ..< length (forces (reference_system self))]
       ((reference_system self)\<lparr>forces := []\<rparr>)"
proof -
  have eq: "\<lparr>periodicBoxVectors = periodicBoxVectors (reference_system self),
         particleMasses = particleMasses (reference_system self),
         constraints = constraints (reference_system self), forces = []\<rparr>
        = (reference_system self)\<lparr>forces := []\<rparr>"
    by (rule System.equality) simp_all
  show ?thesis
    unfolding createPerturbedSystem_def Let_def
    by (simp add: fold_addParticle fold_addConstraint System_new_def getNumParticles_def map_nth eq)
qed

text \<open>Every pass only appends force terms to the system under construction.\<close>

lemma perturbForce_appends:
  assumes "perturbForce self st f system = Inr system'"
  shows "\<exists>new. system' = system\<lparr>forces := forces system @ new\<rparr>"
  using assms
  by (cases f)
     (auto simp: Let_def addForce_def split: if_splits sum.splits prod.splits option.splits
           intro: exI)

lemma perturbForces_appends:
  assumes "perturbForces self st ns system = Inr system'"
  shows "\<exists>new. system' = system\<lparr>forces := forces system @ new\<rparr>"
  using assms
proof (induction ns arbitrary: system)
  case Nil
  then show ?case by (auto intro: exI[of _ "[]"])
next
  case (Cons n ns)
  then obtain mid where
    m: "perturbForce self st (forces (reference_system self) ! n) system = Inr mid"
    and r: "perturbForces self st ns mid = Inr system'"
    by (auto split: sum.splits)
  from perturbForce_appends[OF m] obtain new1 where
    "mid = system\<lparr>forces := forces system @ new1\<rparr>" by blast
  moreover from Cons.IH[OF r] obtain new2 where
    "system' = mid\<lparr>forces := forces mid @ new2\<rparr>" by blast
  ultimately have "system' = system\<lparr>forces := forces system @ (new1 @ new2)\<rparr>" by simp
  then show ?case by blast
qed

lemma perturbForces_contains:
  assumes "perturbForces self st ns system = Inr system'"
    and "j \<in> set ns"
    and "\<And>mid. perturbForce self st (forces (reference_system self) ! j) mid = Inr (addForce mid g)"
  shows "g \<in> set (forces system')"
  using assms(1,2)
proof (induction ns arbitrary: system)
  case Nil
  then show ?case by simp
next
  case (Cons n ns)
  then obtain mid where
    m: "perturbForce self st (forces (reference_system self) ! n) system = Inr mid"
    and r: "perturbForces self st ns mid = Inr system'"
    by (auto split: sum.splits)
  show ?case
  proof (cases "n = j")
    case True
    with m assms(3)[of system] have "mid = addForce system g" by simp
    moreover from perturbForces_appends[OF r] obtain new where
      "system' = mid\<lparr>forces := forces mid @ new\<rparr>" by blast
    ultimately show ?thesis by (simp add: addForce_def)
  next
    case False
    with Cons.prems have "j \<in> set ns" by simp
    from Cons.IH[OF r this] show ?thesis .
  qed
qed



lemma perturbForces_generalizedBorn_IndexError:
  assumes "j \<in> set ns"
    and "forces (reference_system self) ! j = GBSAOBC rf"
    and "ligandElectrostatics st \<noteq> 1"
    and "i \<in> set (ligand_atoms self)"
    and "i < - int (length (particleMasses system)) \<or> int (length (particleMasses system)) \<le> i"
  shows "perturbForces self st ns system = Inl IndexError"
  using assms(1,5)
proof (induction ns arbitrary: system)
  case Nil
  then show ?case by simp
next
  case (Cons n ns)
  show ?case
  proof (cases "perturbForce self st (forces (reference_system self) ! n) system")
    case (Inl e)
    then show ?thesis by (cases e) simp
  next
    case (Inr mid)
    from perturbForce_appends[OF Inr] have same: "particleMasses mid = particleMasses system"
      by auto
    have "n \<noteq> j"
    proof
      assume "n = j"
      have "\<not> list_all (\<lambda>i. - int (length (particleMasses system)) \<le> i
                             \<and> i < int (length (particleMasses system))) (ligand_atoms self)"
        using assms(4) Cons.prems(2) by (fastforce simp: list_all_iff)
      then have "perturbForce self st (GBSAOBC rf) system = Inl IndexError"
        using assms(3) by (simp add: numpy_assign_def numpy_ones_def getNumParticles_def)
      with Inr \<open>n = j\<close> assms(2) show False by simp
    qed
    with Cons.prems have "j \<in> set ns" by simp
    from Cons.IH[OF this] Cons.prems(2) same Inr show ?thesis by simp
  qed
qed

lemma restraints_update_scaleParticleCharge:
  "scaleParticleCharge self (st\<lparr>relativeRestraints := r\<rparr>) = scaleParticleCharge self st"
  by (intro ext) (simp add: scaleParticleCharge_def case_prod_beta)

lemma restraints_update_scaleExceptionChargeprod:
  "scaleExceptionChargeprod self (st\<lparr>relativeRestraints := r\<rparr>) = scaleExceptionChargeprod self st"
  by (intro ext) (simp add: scaleExceptionChargeprod_def case_prod_beta)

lemma restraints_update_softcoreException:
  "softcoreException L (st\<lparr>relativeRestraints := r\<rparr>) = softcoreException L st"
  by (intro ext) (simp add: softcoreException_def case_prod_beta)

lemma restraints_update_copyPeriodicTorsionForce:
  "copyPeriodicTorsionForce self (st\<lparr>relativeRestraints := r\<rparr>) rf
     = copyPeriodicTorsionForce self st rf"
  by (simp add: copyPeriodicTorsionForce_map case_prod_beta cong: if_cong)

lemma restraints_update_modifyElectrostatics:
  "modifyElectrostatics self (st\<lparr>relativeRestraints := r\<rparr>) nb = modifyElectrostatics self st nb"
  by (simp only: modifyElectrostatics_def restraints_update_scaleParticleCharge
        restraints_update_scaleExceptionChargeprod)

lemma restraints_update_alchemicallyModifyLennardJones:
  "alchemicallyModifyLennardJones nb L (st\<lparr>relativeRestraints := r\<rparr>)
     = alchemicallyModifyLennardJones nb L st"
  unfolding alchemicallyModifyLennardJones_def restraints_update_softcoreException
  by simp

lemma restraints_update_perturbForce:
  "perturbForce self (st\<lparr>relativeRestraints := r\<rparr>) f system = perturbForce self st f system"
  by (cases f)
     (simp_all add: restraints_update_copyPeriodicTorsionForce
        restraints_update_modifyElectrostatics restraints_update_alchemicallyModifyLennardJones
        cong: if_cong)

lemma restraints_update_perturbForces:
  "perturbForces self (st\<lparr>relativeRestraints := r\<rparr>) ns system = perturbForces self st ns system"
  by (induction ns arbitrary: system)
     (simp_all add: restraints_update_perturbForce split: sum.splits)

section \<open>The protocol presets\<close>

text \<open>
  Claim C5. The complex-implicit preset starts with the fully interacting state
  (restraints 0, electrostatics 1, Lennard-Jones 1, torsions 1); the electrostatics factor
  never increases from one state to the next; the Lennard-Jones factor is 1 in every state
  whose electrostatics factor is nonzero; from a state with electrostatics 0 onwards the
  Lennard-Jones factor never increases, and it is 0 in the last state; the torsion factor
  is 1 and the restraint factor 0 in every state.
\<close>

theorem defaultComplexProtocolImplicit_schedule:
  "defaultComplexProtocolImplicit ! 0 = AlchemicalState_init 0 1 1 1
   \<and> successively (\<lambda>s t. ligandElectrostatics t \<le> ligandElectrostatics s)
        defaultComplexProtocolImplicit
   \<and> list_all (\<lambda>s. ligandElectrostatics s \<noteq> 0 \<longrightarrow> ligandLennardJones s = 1)
        defaultComplexProtocolImplicit
   \<and> successively (\<lambda>s t. ligandElectrostatics s = 0 \<longrightarrow> ligandLennardJones t \<le> ligandLennardJones s)
        defaultComplexProtocolImplicit
   \<and> ligandLennardJones (last defaultComplexProtocolImplicit) = 0
   \<and> list_all (\<lambda>s. ligandTorsions s = 1 \<and> relativeRestraints s = 0)
        defaultComplexProtocolImplicit"
  by (simp add: defaultComplexProtocolImplicit_def AlchemicalState_init_def)

theorem defaultComplexProtocolImplicit_schedule_witness:
  "ligandElectrostatics (defaultComplexProtocolImplicit ! 1) \<noteq> 0
   \<and> ligandLennardJones (defaultComplexProtocolImplicit ! 1) = 1
   \<and> ligandElectrostatics (defaultComplexProtocolImplicit ! 4) = 0
   \<and> ligandLennardJones (defaultComplexProtocolImplicit ! 5)
       \<le> ligandLennardJones (defaultComplexProtocolImplicit ! 4)"
  using defaultComplexProtocolImplicit_schedule
  by (simp add: defaultComplexProtocolImplicit_def AlchemicalState_init_def)

section \<open>The fully interacting state\<close>



section \<open>Torsions\<close>

text \<open>
  Claim C7. For a periodic-torsion term of the reference, the build adds one
  periodic-torsion term with the same number of torsions, in the same order; a torsion
  whose four atoms are all in the ligand atom set has its barrier \<open>k\<close> multiplied by
  \<open>ligandTorsions\<close>, atoms, periodicity and phase unchanged; every other torsion
  (spanning the boundary, or outside the ligand) is copied unchanged.
\<close>

theorem torsion_barrier_scaling:
  assumes "createPerturbedSystem self st = Inr system"
    and "j < length (forces (reference_system self))"
    and "forces (reference_system self) ! j = PeriodicTorsion reference_force"
  shows "\<exists>force.
           PeriodicTorsion force \<in> set (forces system)
         \<and> (\<forall>system0. perturbForce self st (PeriodicTorsion reference_force) system0
                          = Inr (addForce system0 (PeriodicTorsion force)))
         \<and> length (torsions force) = length (torsions reference_force)
         \<and> (\<forall>i < length (torsions reference_force).
               case torsions reference_force ! i of
                 (particle1, particle2, particle3, particle4, periodicity, phase, k) \<Rightarrow>
                   torsions force ! i =
                     (particle1, particle2, particle3, particle4, periodicity, phase,
                      if particle1 \<in> ligand_atomset self \<and> particle2 \<in> ligand_atomset self
                         \<and> particle3 \<in> ligand_atomset self \<and> particle4 \<in> ligand_atomset self
                      then k * ligandTorsions st else k))"
proof -
  let ?force = "copyPeriodicTorsionForce self st reference_force"
  have disp: "perturbForce self st (forces (reference_system self) ! j) system0
                = Inr (addForce system0 (PeriodicTorsion ?force))" for system0
    by (simp add: assms(3))
  have "j \<in> set [0 ..< length (forces (reference_system self))]"
    using assms(2) by simp
  with assms(1) have "PeriodicTorsion ?force \<in> set (forces system)"
    unfolding createPerturbedSystem_eq by (rule perturbForces_contains) (rule disp)
  moreover have "length (torsions ?force) = length (torsions reference_force)"
    by (simp add: copyPeriodicTorsionForce_map)
  moreover have "\<forall>i < length (torsions reference_force).
               case torsions reference_force ! i of
                 (particle1, particle2, particle3, particle4, periodicity, phase, k) \<Rightarrow>
                   torsions ?force ! i =
                     (particle1, particle2, particle3, particle4, periodicity, phase,
                      if particle1 \<in> ligand_atomset self \<and> particle2 \<in> ligand_atomset self
                         \<and> particle3 \<in> ligand_atomset self \<and> particle4 \<in> ligand_atomset self
                      then k * ligandTorsions st else k)"
    by (simp add: copyPeriodicTorsionForce_map split: prod.splits)
  ultimately show ?thesis
    using disp assms(3) by (intro exI[of _ ?force]) simp
qed

theorem torsion_barrier_scaling_witness:
  "createPerturbedSystem
     \<lparr> reference_system =
         \<lparr> periodicBoxVectors = ((3, 0, 0), (0, 3, 0), (0, 0, 3)),
           particleMasses = [12, 12, 12, 12, 1, 1, 1, 1],
           constraints = [],
           forces = [PeriodicTorsion
                       \<lparr>torsions = [(0, 1, 2, 3, 2, 0, 4), (2, 3, 4, 5, 3, 0, 6),
                                    (4, 5, 6, 7, 1, 0, 8)]\<rparr>] \<rparr>,
       ligand_atoms = [0, 1, 2, 3], ligand_atomset = {0, 1, 2, 3} \<rparr>
     (AlchemicalState_init 0 1 1 (1/2))
   = Inr \<lparr> periodicBoxVectors = ((3, 0, 0), (0, 3, 0), (0, 0, 3)),
           particleMasses = [12, 12, 12, 12, 1, 1, 1, 1],
           constraints = [],
           forces = [PeriodicTorsion
                       \<lparr>torsions = [(0, 1, 2, 3, 2, 0, 2), (2, 3, 4, 5, 3, 0, 6),
                                    (4, 5, 6, 7, 1, 0, 8)]\<rparr>] \<rparr>
   \<and> (\<exists>force.
         PeriodicTorsion force
           \<in> set (forces \<lparr> periodicBoxVectors = ((3, 0, 0), (0, 3, 0), (0, 0, 3)),
                            particleMasses = [12, 12, 12, 12, 1, 1, 1, 1],
                            constraints = [],
                            forces = [PeriodicTorsion
                                        \<lparr>torsions = [(0, 1, 2, 3, 2, 0, 2), (2, 3, 4, 5, 3, 0, 6),
                                                     (4, 5, 6, 7, 1, 0, 8)]\<rparr>] \<rparr>)
       \<and> torsions force ! 0 = (0, 1, 2, 3, 2, 0, 2)
       \<and> torsions force ! 1 = (2, 3, 4, 5, 3, 0, 6)
       \<and> torsions force ! 2 = (4, 5, 6, 7, 1, 0, 8))"
  (is "createPerturbedSystem ?self ?st = Inr ?built \<and> ?found")
proof -
  let ?rf = "\<lparr>torsions = [(0, 1, 2, 3, 2, 0, 4), (2, 3, 4, 5, 3, 0, 6), (4, 5, 6, 7, 1, 0, 8)]\<rparr>
               :: PeriodicTorsionForce"
  have built: "createPerturbedSystem ?self ?st = Inr ?built"
    by (simp add: createPerturbedSystem_eq copyPeriodicTorsionForce_map addForce_def
          AlchemicalState_init_def)
  have j: "0 < length (forces (reference_system ?self))"
    and f: "forces (reference_system ?self) ! 0 = PeriodicTorsion ?rf"
    by simp_all
  from torsion_barrier_scaling[OF built j f] obtain force where
    mem: "PeriodicTorsion force \<in> set (forces ?built)"
    and each: "\<forall>i < length (torsions ?rf).
                 case torsions ?rf ! i of
                   (particle1, particle2, particle3, particle4, periodicity, phase, k) \<Rightarrow>
                     torsions force ! i =
                       (particle1, particle2, particle3, particle4, periodicity, phase,
                        if particle1 \<in> ligand_atomset ?self \<and> particle2 \<in> ligand_atomset ?self
                           \<and> particle3 \<in> ligand_atomset ?self \<and> particle4 \<in> ligand_atomset ?self
                        then k * ligandTorsions ?st else k)"
    by blast
  from each[rule_format, of 0] have "torsions force ! 0 = (0, 1, 2, 3, 2, 0, 2)"
    by (simp add: AlchemicalState_init_def)
  moreover from each[rule_format, of 1] have "torsions force ! 1 = (2, 3, 4, 5, 3, 0, 6)"
    by (simp add: AlchemicalState_init_def)
  moreover from each[rule_format, of 2] have "torsions force ! 2 = (4, 5, 6, 7, 1, 0, 8)"
    by (simp add: AlchemicalState_init_def)
  ultimately show ?thesis using built mem by blast
qed

section \<open>Electrostatics of the nonbonded term\<close>

text \<open>
  Claim C6. When \<open>ligandElectrostatics \<noteq> 1\<close>, the electrostatics step applied to the
  copy of the nonbonded term multiplies the charge of every ligand particle by
  \<open>ligandElectrostatics\<close> and leaves its sigma and epsilon, and every other particle,
  unchanged; an exception between two ligand atoms has its charge product multiplied by
  \<open>ligandElectrostatics\<^sup>2\<close> if and only if \<open>annihilateElectrostatics\<close> is set; every
  other exception is unchanged. The nonbonded term the build places in the system is the
  result of this step when \<open>ligandLennardJones = 1\<close>, and has its charges, sigmas and
  charge products in any case.
\<close>

theorem electrostatics_scaling:
  assumes "ligandElectrostatics alchemical_state \<noteq> 1"
  shows "(let force = modifyElectrostatics self alchemical_state reference_force in
            length (nb_particles force) = length (nb_particles reference_force)
          \<and> (\<forall>particle_index < length (nb_particles reference_force).
                case nb_particles reference_force ! particle_index of
                  (charge, sigma, epsilon) \<Rightarrow>
                    nb_particles force ! particle_index =
                      (if int particle_index \<in> ligand_atomset self
                       then charge * ligandElectrostatics alchemical_state else charge,
                       sigma, epsilon))
          \<and> length (nb_exceptions force) = length (nb_exceptions reference_force)
          \<and> (\<forall>exception_index < length (nb_exceptions reference_force).
                case nb_exceptions reference_force ! exception_index of
                  (iatom, jatom, chargeprod, sigma, epsilon) \<Rightarrow>
                    nb_exceptions force ! exception_index =
                      (iatom, jatom,
                       if iatom \<in> ligand_atomset self \<and> jatom \<in> ligand_atomset self
                          \<and> annihilateElectrostatics alchemical_state
                       then chargeprod * (ligandElectrostatics alchemical_state)\<^sup>2
                       else chargeprod,
                       sigma, epsilon))
          \<and> (\<exists>built rest.
                perturbForce self alchemical_state (Nonbonded reference_force) system
                  = Inr (system\<lparr>forces := forces system @ Nonbonded built # rest\<rparr>)
              \<and> (ligandLennardJones alchemical_state = 1 \<longrightarrow> built = force)
              \<and> map (\<lambda>(charge, sigma, epsilon). (charge, sigma)) (nb_particles built)
                  = map (\<lambda>(charge, sigma, epsilon). (charge, sigma)) (nb_particles force)
              \<and> map (\<lambda>(iatom, jatom, chargeprod, sigma, epsilon). (iatom, jatom, chargeprod, sigma))
                     (nb_exceptions built)
                  = map (\<lambda>(iatom, jatom, chargeprod, sigma, epsilon). (iatom, jatom, chargeprod, sigma))
                        (nb_exceptions force)))"
proof -
  define force where "force = modifyElectrostatics self alchemical_state reference_force"
  have step:
    "length (nb_particles force) = length (nb_particles reference_force)"
    "\<forall>particle_index < length (nb_particles reference_force).
        case nb_particles reference_force ! particle_index of
          (charge, sigma, epsilon) \<Rightarrow>
            nb_particles force ! particle_index =
              (if int particle_index \<in> ligand_atomset self
               then charge * ligandElectrostatics alchemical_state else charge,
               sigma, epsilon)"
    "length (nb_exceptions force) = length (nb_exceptions reference_force)"
    "\<forall>exception_index < length (nb_exceptions reference_force).
        case nb_exceptions reference_force ! exception_index of
          (iatom, jatom, chargeprod, sigma, epsilon) \<Rightarrow>
            nb_exceptions force ! exception_index =
              (iatom, jatom,
               if iatom \<in> ligand_atomset self \<and> jatom \<in> ligand_atomset self
                  \<and> annihilateElectrostatics alchemical_state
               then chargeprod * (ligandElectrostatics alchemical_state)\<^sup>2
               else chargeprod,
               sigma, epsilon)"
    unfolding force_def modifyElectrostatics_eq
    by (simp_all add: case_prod_beta)
  have build: "\<exists>built rest.
                perturbForce self alchemical_state (Nonbonded reference_force) system
                  = Inr (system\<lparr>forces := forces system @ Nonbonded built # rest\<rparr>)
              \<and> (ligandLennardJones alchemical_state = 1 \<longrightarrow> built = force)
              \<and> map (\<lambda>(charge, sigma, epsilon). (charge, sigma)) (nb_particles built)
                  = map (\<lambda>(charge, sigma, epsilon). (charge, sigma)) (nb_particles force)
              \<and> map (\<lambda>(iatom, jatom, chargeprod, sigma, epsilon). (iatom, jatom, chargeprod, sigma))
                     (nb_exceptions built)
                  = map (\<lambda>(iatom, jatom, chargeprod, sigma, epsilon). (iatom, jatom, chargeprod, sigma))
                        (nb_exceptions force)"
  proof (cases "ligandLennardJones alchemical_state = 1")
    case True
    have "perturbForce self alchemical_state (Nonbonded reference_force) system
            = Inr (system\<lparr>forces := forces system @ Nonbonded force # []\<rparr>)"
      using assms True by (simp add: force_def addForce_def)
    then show ?thesis by blast
  next
    case False
    obtain nb' cn cb where
      lj: "alchemicallyModifyLennardJones force (ligand_atoms self) alchemical_state = (nb', cn, cb)"
      by (cases "alchemicallyModifyLennardJones force (ligand_atoms self) alchemical_state") auto
    have "perturbForce self alchemical_state (Nonbonded reference_force) system
            = Inr (system\<lparr>forces := forces system @ Nonbonded nb'
                     # (CustomNonbonded cn # (case cb of None \<Rightarrow> [] | Some b \<Rightarrow> [CustomBond b]))\<rparr>)"
      using assms False lj by (simp add: force_def[symmetric] addForce_def split: option.splits)
    moreover have "nb' = fst (alchemicallyModifyLennardJones force (ligand_atoms self) alchemical_state)"
      using lj by simp
    ultimately show ?thesis
      using False alchemicallyModifyLennardJones_keeps_charges[of force "ligand_atoms self" alchemical_state]
      by auto
  qed
  show ?thesis
    unfolding Let_def force_def[symmetric]
    using step build by blast
qed

theorem electrostatics_scaling_witness:
  "nb_particles
     (modifyElectrostatics
        \<lparr> reference_system = (), ligand_atoms = [0, 1], ligand_atomset = {0, 1} \<rparr>
        (AlchemicalState_init 0 (1/2) 1 1)
        \<lparr>nb_particles = [(1/2, 3/10, 2/5), (-1/2, 1/5, 1/10), (1, 1/5, 1/10)],
         nb_exceptions = [(0, 1, -1/4, 1/4, 1/5), (1, 2, -1/2, 1/5, 1/10)],
         nb_nonbondedMethod = PME, nb_cutoffDistance = 1,
         nb_useDispersionCorrection = True\<rparr>) ! 0 = (1/4, 3/10, 2/5)
   \<and> nb_particles
     (modifyElectrostatics
        \<lparr> reference_system = (), ligand_atoms = [0, 1], ligand_atomset = {0, 1} \<rparr>
        (AlchemicalState_init 0 (1/2) 1 1)
        \<lparr>nb_particles = [(1/2, 3/10, 2/5), (-1/2, 1/5, 1/10), (1, 1/5, 1/10)],
         nb_exceptions = [(0, 1, -1/4, 1/4, 1/5), (1, 2, -1/2, 1/5, 1/10)],
         nb_nonbondedMethod = PME, nb_cutoffDistance = 1,
         nb_useDispersionCorrection = True\<rparr>) ! 2 = (1, 1/5, 1/10)
   \<and> nb_exceptions
     (modifyElectrostatics
        \<lparr> reference_system = (), ligand_atoms = [0, 1], ligand_atomset = {0, 1} \<rparr>
        (AlchemicalState_init 0 (1/2) 1 1)
        \<lparr>nb_particles = [(1/2, 3/10, 2/5), (-1/2, 1/5, 1/10), (1, 1/5, 1/10)],
         nb_exceptions = [(0, 1, -1/4, 1/4, 1/5), (1, 2, -1/2, 1/5, 1/10)],
         nb_nonbondedMethod = PME, nb_cutoffDistance = 1,
         nb_useDispersionCorrection = True\<rparr>) ! 0 = (0, 1, -1/16, 1/4, 1/5)
   \<and> nb_exceptions
     (modifyElectrostatics
        \<lparr> reference_system = (), ligand_atoms = [0, 1], ligand_atomset = {0, 1} \<rparr>
        (AlchemicalState_init 0 (1/2) 1 1)
        \<lparr>nb_particles = [(1/2, 3/10, 2/5), (-1/2, 1/5, 1/10), (1, 1/5, 1/10)],
         nb_exceptions = [(0, 1, -1/4, 1/4, 1/5), (1, 2, -1/2, 1/5, 1/10)],
         nb_nonbondedMethod = PME, nb_cutoffDistance = 1,
         nb_useDispersionCorrection = True\<rparr>) ! 1 = (1, 2, -1/2, 1/5, 1/10)"
  (is "nb_particles (modifyElectrostatics ?self ?st ?nb) ! 0 = _ \<and> _")
proof -
  have h: "ligandElectrostatics ?st \<noteq> 1"
    by (simp add: AlchemicalState_init_def)
  note t = electrostatics_scaling[OF h, of ?self ?nb System_new, unfolded Let_def]
  note particles = t[THEN conjunct2, THEN conjunct1, rule_format]
  note exceptions = t[THEN conjunct2, THEN conjunct2, THEN conjunct2, THEN conjunct1, rule_format]
  from particles[of 0] particles[of 2] exceptions[of 0] exceptions[of 1]
  show ?thesis
    by (simp add: AlchemicalState_init_def power2_eq_square)
qed

section \<open>Exceptions under the softcore Lennard-Jones builder\<close>




section \<open>Force terms of other kinds\<close>

text \<open>
  Claim C2, amended. A reference force term whose kind is none of periodic torsion,
  nonbonded, generalized Born, custom external and custom bond raises no error: the
  \<^verbatim>\<open>else\<close> branch adds a copy of it, unmodified, to the system under construction, and
  every build that returns contains it.
\<close>

theorem unhandled_force_copied:
  assumes "j < length (forces (reference_system self))"
    and "forces (reference_system self) ! j = reference_force"
    and "\<forall>x. reference_force \<noteq> PeriodicTorsion x"
    and "\<forall>x. reference_force \<noteq> Nonbonded x"
    and "\<forall>x. reference_force \<noteq> GBSAOBC x"
    and "\<forall>x. reference_force \<noteq> CustomExternal x"
    and "\<forall>x. reference_force \<noteq> CustomBond x"
  shows "(\<forall>system0. perturbForce self st reference_force system0
                      = Inr (addForce system0 reference_force))
         \<and> (\<forall>system. createPerturbedSystem self st = Inr system
                \<longrightarrow> reference_force \<in> set (forces system))"
proof -
  have disp: "perturbForce self st reference_force system0 = Inr (addForce system0 reference_force)"
    for system0
    using assms(3-7) by (cases reference_force) simp_all
  have j: "j \<in> set [0 ..< length (forces (reference_system self))]"
    using assms(1) by simp
  have "reference_force \<in> set (forces system)"
    if "createPerturbedSystem self st = Inr system" for system
    using that j unfolding createPerturbedSystem_eq
    by (rule perturbForces_contains) (simp add: assms(2) disp)
  with disp show ?thesis by blast
qed

text \<open>
  Against claim C2 as stated: a reference system whose only force term is a harmonic bond
  force is built without error, the term copied as it is.
\<close>

theorem unhandled_force_raises_counterexample:
  "createPerturbedSystem
     \<lparr> reference_system =
         \<lparr> periodicBoxVectors = ((3, 0, 0), (0, 3, 0), (0, 0, 3)),
           particleMasses = [12, 1],
           constraints = [],
           forces = [OtherForce ''HarmonicBondForce'' [0, 1, 1/10, 1000]] \<rparr>,
       ligand_atoms = [0], ligand_atomset = {0} \<rparr>
     (AlchemicalState_init 0 (1/2) (1/2) (1/2))
   = Inr \<lparr> periodicBoxVectors = ((3, 0, 0), (0, 3, 0), (0, 0, 3)),
           particleMasses = [12, 1],
           constraints = [],
           forces = [OtherForce ''HarmonicBondForce'' [0, 1, 1/10, 1000]] \<rparr>"
  by (simp add: createPerturbedSystem_eq addForce_def)

theorem unhandled_force_copied_witness:
  "perturbForce
     \<lparr> reference_system =
         \<lparr> periodicBoxVectors = ((3, 0, 0), (0, 3, 0), (0, 0, 3)),
           particleMasses = [12, 1],
           constraints = [],
           forces = [OtherForce ''HarmonicAngleForce'' [0, 1, 2, 2, 300]] \<rparr>,
       ligand_atoms = [1], ligand_atomset = {1} \<rparr>
     (AlchemicalState_init 0 0 0 1)
     (OtherForce ''HarmonicAngleForce'' [0, 1, 2, 2, 300])
     System_new
   = Inr (addForce System_new (OtherForce ''HarmonicAngleForce'' [0, 1, 2, 2, 300]))
   \<and> createPerturbedSystem
     \<lparr> reference_system =
         \<lparr> periodicBoxVectors = ((3, 0, 0), (0, 3, 0), (0, 0, 3)),
           particleMasses = [12, 1],
           constraints = [],
           forces = [OtherForce ''HarmonicAngleForce'' [0, 1, 2, 2, 300]] \<rparr>,
       ligand_atoms = [1], ligand_atomset = {1} \<rparr>
     (AlchemicalState_init 0 0 0 1)
   = Inr \<lparr> periodicBoxVectors = ((3, 0, 0), (0, 3, 0), (0, 0, 3)),
           particleMasses = [12, 1],
           constraints = [],
           forces = [OtherForce ''HarmonicAngleForce'' [0, 1, 2, 2, 300]] \<rparr>
   \<and> OtherForce ''HarmonicAngleForce'' [0, 1, 2, 2, 300]
       \<in> set (forces \<lparr> periodicBoxVectors = ((3, 0, 0), (0, 3, 0), (0, 0, 3)),
                        particleMasses = [12, 1],
                        constraints = [],
                        forces = [OtherForce ''HarmonicAngleForce'' [0, 1, 2, 2, 300]] \<rparr>)"
  (is "perturbForce ?self ?st ?f System_new = _ \<and> createPerturbedSystem _ _ = Inr ?built \<and> _")
proof -
  have j: "0 < length (forces (reference_system ?self))"
    and f: "forces (reference_system ?self) ! 0 = ?f"
    by simp_all
  have built: "createPerturbedSystem ?self ?st = Inr ?built"
    by (simp add: createPerturbedSystem_eq addForce_def)
  note t = unhandled_force_copied[OF j f, of ?st]
  have "perturbForce ?self ?st ?f System_new = Inr (addForce System_new ?f)"
    using t by simp
  moreover have "?f \<in> set (forces ?built)"
    using t built by simp
  ultimately show ?thesis using built by blast
qed

section \<open>Construction of the factory\<close>

text \<open>
  Claim C3, amended. Construction of the factory validates nothing: for every reference
  system and every ligand atom list, with indices in or out of range, it succeeds and
  stores the system, the list and the set of its elements. An index outside \<open>[-N, N)\<close>
  makes a later build fail when that build replaces a generalized-Born term
  (\<open>ligandElectrostatics \<noteq> 1\<close>): the array assignment raises IndexError.
\<close>

theorem construction_accepts_any_ligand_list:
  "Factory_init reference ligand
     = Inr \<lparr> reference_system = reference, ligand_atoms = ligand, ligand_atomset = set ligand \<rparr>
   \<and> (\<forall>self st i j rf.
         Factory_init reference ligand = Inr self
         \<and> i \<in> set ligand
         \<and> (i < - int (getNumParticles reference) \<or> int (getNumParticles reference) \<le> i)
         \<and> j < length (forces reference) \<and> forces reference ! j = GBSAOBC rf
         \<and> ligandElectrostatics st \<noteq> 1
         \<longrightarrow> createPerturbedSystem self st = Inl IndexError)"
proof -
  have "createPerturbedSystem self st = Inl IndexError"
    if "Factory_init reference ligand = Inr self" "i \<in> set ligand"
       "i < - int (getNumParticles reference) \<or> int (getNumParticles reference) \<le> i"
       "j < length (forces reference)" "forces reference ! j = GBSAOBC rf"
       "ligandElectrostatics st \<noteq> 1"
    for self st i j rf
  proof -
    have self: "reference_system self = reference" "ligand_atoms self = ligand"
      using that(1) by (auto simp: Factory_init_def)
    show ?thesis
      unfolding createPerturbedSystem_eq
      by (rule perturbForces_generalizedBorn_IndexError[where j = j and rf = rf and i = i])
         (use that self in \<open>simp_all add: getNumParticles_def\<close>)
  qed
  then show ?thesis by (simp add: Factory_init_def) blast
qed

text \<open>
  Against claim C3 as stated: with two particles and the ligand atom list \<open>[7]\<close>,
  construction returns a factory.
\<close>

theorem construction_rejects_bad_index_counterexample:
  "Factory_init
     \<lparr> periodicBoxVectors = ((3, 0, 0), (0, 3, 0), (0, 0, 3)),
       particleMasses = [12, 1],
       constraints = [],
       forces = [] \<rparr>
     [7]
   = Inr \<lparr> reference_system =
             \<lparr> periodicBoxVectors = ((3, 0, 0), (0, 3, 0), (0, 0, 3)),
               particleMasses = [12, 1],
               constraints = [],
               forces = [] \<rparr>,
           ligand_atoms = [7], ligand_atomset = {7} \<rparr>"
  by (simp add: Factory_init_def)

theorem construction_accepts_any_ligand_list_witness:
  "createPerturbedSystem
     \<lparr> reference_system =
         \<lparr> periodicBoxVectors = ((3, 0, 0), (0, 3, 0), (0, 0, 3)),
           particleMasses = [12, 1],
           constraints = [],
           forces = [GBSAOBC \<lparr>gb_particles = [(1/2, 3/20, 4/5), (-1/2, 3/20, 4/5)],
                              gb_nonbondedMethod = NoCutoff, gb_cutoffDistance = 1,
                              gb_solventDielectric = 785/10, gb_soluteDielectric = 1\<rparr>] \<rparr>,
       ligand_atoms = [2], ligand_atomset = {2} \<rparr>
     (AlchemicalState_init 0 (1/2) 1 1)
   = Inl IndexError"
  (is "createPerturbedSystem ?self ?st = _")
proof -
  let ?gb = "\<lparr>gb_particles = [(1/2, 3/20, 4/5), (-1/2, 3/20, 4/5)],
              gb_nonbondedMethod = NoCutoff, gb_cutoffDistance = 1,
              gb_solventDielectric = 785/10, gb_soluteDielectric = 1\<rparr> :: GBSAOBCForce"
  have "Factory_init (reference_system ?self) [2] = Inr ?self
        \<and> (2::int) \<in> set [2]
        \<and> ((2::int) < - int (getNumParticles (reference_system ?self))
             \<or> int (getNumParticles (reference_system ?self)) \<le> 2)
        \<and> 0 < length (forces (reference_system ?self))
        \<and> forces (reference_system ?self) ! 0 = GBSAOBC ?gb
        \<and> ligandElectrostatics ?st \<noteq> 1"
    by (simp add: Factory_init_def getNumParticles_def AlchemicalState_init_def)
  with construction_accepts_any_ligand_list[of "reference_system ?self" "[2]"]
  show ?thesis by blast
qed

section \<open>The restraints factor\<close>

text \<open>
  Claim C10. Two states that agree on the electrostatics, Lennard-Jones and torsion
  factors and on both annihilation flags give the same build result, whatever their
  restraints factors: \<open>relativeRestraints\<close> is never read.
\<close>

theorem restraints_factor_not_read:
  assumes "ligandElectrostatics st1 = ligandElectrostatics st2"
    and "ligandLennardJones st1 = ligandLennardJones st2"
    and "ligandTorsions st1 = ligandTorsions st2"
    and "annihilateElectrostatics st1 = annihilateElectrostatics st2"
    and "annihilateLennardJones st1 = annihilateLennardJones st2"
  shows "createPerturbedSystem self st1 = createPerturbedSystem self st2"
proof -
  have "st1 = st2\<lparr>relativeRestraints := relativeRestraints st1\<rparr>"
    using assms by (intro AlchemicalState.equality) simp_all
  then have "createPerturbedSystem self st1
               = createPerturbedSystem self (st2\<lparr>relativeRestraints := relativeRestraints st1\<rparr>)"
    by simp
  also have "\<dots> = createPerturbedSystem self st2"
    by (simp add: createPerturbedSystem_def restraints_update_perturbForces)
  finally show ?thesis .
qed

theorem restraints_factor_not_read_witness:
  "createPerturbedSystem
     \<lparr> reference_system =
         \<lparr> periodicBoxVectors = ((3, 0, 0), (0, 3, 0), (0, 0, 3)),
           particleMasses = [12, 1],
           constraints = [],
           forces = [Nonbonded \<lparr>nb_particles = [(1/2, 3/10, 2/5), (-1/2, 1/5, 1/10)],
                                nb_exceptions = [(0, 1, -1/4, 1/4, 1/5)],
                                nb_nonbondedMethod = PME, nb_cutoffDistance = 1,
                                nb_useDispersionCorrection = True\<rparr>] \<rparr>,
       ligand_atoms = [0], ligand_atomset = {0} \<rparr>
     (AlchemicalState_init 0 (1/2) (1/4) 1)
   = createPerturbedSystem
     \<lparr> reference_system =
         \<lparr> periodicBoxVectors = ((3, 0, 0), (0, 3, 0), (0, 0, 3)),
           particleMasses = [12, 1],
           constraints = [],
           forces = [Nonbonded \<lparr>nb_particles = [(1/2, 3/10, 2/5), (-1/2, 1/5, 1/10)],
                                nb_exceptions = [(0, 1, -1/4, 1/4, 1/5)],
                                nb_nonbondedMethod = PME, nb_cutoffDistance = 1,
                                nb_useDispersionCorrection = True\<rparr>] \<rparr>,
       ligand_atoms = [0], ligand_atomset = {0} \<rparr>
     (AlchemicalState_init 1 (1/2) (1/4) 1)"
  by (rule restraints_factor_not_read) (simp_all add: AlchemicalState_init_def)

section \<open>The softcore energy at contact\<close>

lemma unmodified_energy_eq:
  assumes "0 < sigma" "0 < r"
  shows "softcore_energy (1/2) 1 1 1 epsilon sigma 1 r
           = 4 * epsilon * ((sigma / r) ^ 12 - (sigma / r) ^ 6)"
proof -
  have d: "softcore_denominator (1/2) 1 1 sigma 1 r = r / sigma"
    using assms by (simp add: softcore_denominator_def)
  have "0 < sigma / r" using assms by simp
  then have x: "softcore_x (1/2) 1 1 sigma 1 r = (sigma / r) ^ 6"
    by (simp add: softcore_x_def d)
  show ?thesis
    by (simp add: softcore_energy_def x algebra_simps flip: power_add)
qed

lemma unmodified_energy_diverges:
  assumes "0 < epsilon" "0 < sigma"
  shows "filterlim (\<lambda>r. softcore_energy (1/2) 1 1 1 epsilon sigma 1 r) at_top (at_right 0)"
proof -
  have g: "LIM r at_right (0::real). sigma * inverse r :> at_top"
    by (rule filterlim_tendsto_pos_mult_at_top[OF tendsto_const assms(2)
          filterlim_inverse_at_top_right])
  have x: "LIM r at_right (0::real). (sigma * inverse r) ^ 6 :> at_top"
    by (rule filterlim_pow_at_top[OF _ g]) simp
  have x1: "LIM r at_right (0::real). - 1 + (sigma * inverse r) ^ 6 :> at_top"
    by (rule filterlim_tendsto_add_at_top[OF tendsto_const x])
  have prod: "LIM r at_right (0::real). (sigma * inverse r) ^ 6 * (- 1 + (sigma * inverse r) ^ 6) :> at_top"
    by (rule filterlim_at_top_mult_at_top[OF x x1])
  have "0 < 4 * epsilon" using assms(1) by simp
  from filterlim_tendsto_pos_mult_at_top[OF tendsto_const this prod]
  have lim: "LIM r at_right (0::real).
               4 * epsilon * ((sigma * inverse r) ^ 6 * (- 1 + (sigma * inverse r) ^ 6)) :> at_top" .
  have "eventually (\<lambda>r. 4 * epsilon * ((sigma * inverse r) ^ 6 * (- 1 + (sigma * inverse r) ^ 6))
                         = softcore_energy (1/2) 1 1 1 epsilon sigma 1 r) (at_right 0)"
    using eventually_at_right_less[of "0::real"]
  proof eventually_elim
    case (elim r)
    define y where "y = sigma * inverse r"
    have "y ^ 12 = y ^ 6 * y ^ 6" by (simp flip: power_add)
    then have "4 * epsilon * (y ^ 6 * (- 1 + y ^ 6)) = 4 * epsilon * (y ^ 12 - y ^ 6)"
      by (simp add: algebra_simps)
    moreover have "sigma / r = y" by (simp add: y_def divide_inverse)
    ultimately show ?case
      using elim by (simp add: unmodified_energy_eq[OF assms(2)] y_def[symmetric])
  qed
  from filterlim_mono_eventually[OF lim order_refl order_refl this] show ?thesis .
qed

text \<open>
  Claim C9. With the softcore constants \<open>\<alpha> = 1/2\<close>, \<open>a = b = c = 1\<close>, for every
  \<open>\<epsilon> \<ge> 0\<close>, \<open>\<sigma> > 0\<close> and \<open>0 \<le> lambda_pair < 1\<close>, the denominator of the softcore
  expression at \<open>r = 0\<close> is \<open>\<alpha> (1 - lambda_pair)\<close>, strictly positive, so the pair energy
  at \<open>r = 0\<close> is the value of a division by a nonzero number, given in closed form. The
  unmodified potential is the same expression at \<open>lambda_pair = 1\<close>, the Lennard-Jones
  12-6 form: its denominator vanishes at \<open>r = 0\<close>, and for a pair that has a
  Lennard-Jones interaction (\<open>\<epsilon> > 0\<close>) it tends to infinity as \<open>r\<close> decreases to 0.
\<close>

theorem softcore_energy_finite_at_contact:
  assumes "0 \<le> epsilon" and "0 < sigma" and "0 \<le> lambda_pair" and "lambda_pair < 1"
  shows "softcore_denominator (1/2) 1 1 sigma lambda_pair 0 = 1/2 * (1 - lambda_pair)
       \<and> 0 < softcore_denominator (1/2) 1 1 sigma lambda_pair 0
       \<and> softcore_energy (1/2) 1 1 1 epsilon sigma lambda_pair 0
           = 4 * epsilon * lambda_pair * (2 / (1 - lambda_pair)) ^ 6
               * ((2 / (1 - lambda_pair)) ^ 6 - 1)
       \<and> softcore_denominator (1/2) 1 1 sigma 1 0 = 0
       \<and> (\<forall>r > 0. softcore_energy (1/2) 1 1 1 epsilon sigma 1 r
                     = 4 * epsilon * ((sigma / r) ^ 12 - (sigma / r) ^ 6))
       \<and> (0 < epsilon \<longrightarrow>
            filterlim (\<lambda>r. softcore_energy (1/2) 1 1 1 epsilon sigma 1 r) at_top (at_right 0))"
proof -
  have d: "softcore_denominator (1/2) 1 1 sigma lambda_pair 0 = 1/2 * (1 - lambda_pair)"
    using assms by (simp add: softcore_denominator_def)
  have pos: "0 < 2 / (1 - lambda_pair)" using assms by simp
  have x: "softcore_x (1/2) 1 1 sigma lambda_pair 0 = (2 / (1 - lambda_pair)) ^ 6"
    using pos by (simp add: softcore_x_def d)
  have e: "softcore_energy (1/2) 1 1 1 epsilon sigma lambda_pair 0
           = 4 * epsilon * lambda_pair * (2 / (1 - lambda_pair)) ^ 6
               * ((2 / (1 - lambda_pair)) ^ 6 - 1)"
    using assms(3) by (simp add: softcore_energy_def x)
  have z: "softcore_denominator (1/2) 1 1 sigma 1 0 = 0"
    by (simp add: softcore_denominator_def)
  show ?thesis
    using d e z assms unmodified_energy_eq[OF assms(2)] unmodified_energy_diverges[OF _ assms(2)]
    by simp
qed

theorem softcore_energy_finite_at_contact_witness:
  "softcore_denominator (1/2) 1 1 1 (1/2) 0 = 1/4
   \<and> softcore_energy (1/2) 1 1 1 1 1 (1/2) 0 = 33546240
   \<and> softcore_energy (1/2) 1 1 1 1 1 1 (1/2) = 16128
   \<and> filterlim (\<lambda>r. softcore_energy (1/2) 1 1 1 1 1 1 r) at_top (at_right 0)"
proof -
  have h: "(0::real) \<le> 1" "(0::real) < 1" "(0::real) \<le> 1/2" "(1/2::real) < 1"
    by simp_all
  note t = softcore_energy_finite_at_contact[OF h]
  have "(0::real) < 1/2" by simp
  with t show ?thesis by simp
qed

section \<open>Builds on a store of objects\<close>

lemma prefix_list_update:
  assumes "prefix xs ys" "length xs \<le> a"
  shows "prefix xs (ys[a := v])"
proof -
  from assms(1) obtain zs where "ys = xs @ zs" by (auto simp: prefix_def)
  with assms(2) show ?thesis by (simp add: list_update_append)
qed

lemma prefix_snoc: "prefix xs ys \<Longrightarrow> prefix xs (ys @ [v])"
  by (auto simp: prefix_def)

lemma prefix_nth: "prefix xs ys \<Longrightarrow> i < length xs \<Longrightarrow> ys ! i = xs ! i"
  by (auto simp: prefix_def nth_append)

lemma built_after_add_new_force:
  assumes "built_after base system s" and "new_force v s = (a, s')"
  shows "built_after base system (update_system system (\<lambda>sys. addForce sys a) s')"
    and "length (force_objects base) \<le> a" and "a < length (force_objects s')"
    and "force_objects s' ! a = v"
  using assms
  by (auto simp: built_after_def new_force_def update_system_def addForce_def list_all_iff
        prefix_snoc prefix_list_update prefix_length_le less_Suc_eq)

lemma built_after_update_force:
  assumes "built_after base system s" and "length (force_objects base) \<le> a"
  shows "built_after base system (update_force a f s)"
  using assms
  by (auto simp: built_after_def update_force_def prefix_list_update)

lemma built_after_update_system:
  assumes "built_after base system s" and "\<And>sys. forces (f sys) = forces sys"
  shows "built_after base system (update_system system f s)"
  using assms
  by (auto simp: built_after_def update_system_def prefix_list_update)

lemma built_after_alchemicallyModifyLennardJones_store:
  assumes "built_after base system s" and "length (force_objects base) \<le> nonbonded_force"
  shows "built_after base system
           (alchemicallyModifyLennardJones_store system nonbonded_force L st s)"
proof -
  obtain cn s1 where
    n1: "new_force (CustomNonbonded (CustomNonbondedForce_new
                      (custom_nonbonded_expression (annihilateLennardJones st)))) s = (cn, s1)"
    by (cases "new_force (CustomNonbonded (CustomNonbondedForce_new
                      (custom_nonbonded_expression (annihilateLennardJones st)))) s") auto
  let ?s2 = "update_system system (\<lambda>sys. addForce sys cn) s1"
  have b2: "built_after base system ?s2" and cn: "length (force_objects base) \<le> cn"
    using built_after_add_new_force[OF assms(1) n1] by simp_all
  obtain cbo s3 where
    n3: "(if annihilateLennardJones st
          then (case new_force (CustomBond (CustomBondForce_new custom_bond_expression)) ?s2 of
                  (bond_force, s) \<Rightarrow>
                    (Some bond_force, update_system system (\<lambda>sys. addForce sys bond_force) s))
          else (None, ?s2)) = (cbo, s3)"
    by (cases "(if annihilateLennardJones st
          then (case new_force (CustomBond (CustomBondForce_new custom_bond_expression)) ?s2 of
                  (bond_force, s) \<Rightarrow>
                    (Some bond_force, update_system system (\<lambda>sys. addForce sys bond_force) s))
          else (None, ?s2))") auto
  have b3: "built_after base system s3"
    and cb: "\<And>b. cbo = Some b \<Longrightarrow> length (force_objects base) \<le> b"
    using n3 b2 built_after_add_new_force[OF b2]
    by (auto split: if_splits prod.splits)
  show ?thesis
    unfolding alchemicallyModifyLennardJones_store_def n1 prod.case Let_def n3
    using b3 assms(2) cn cb
    by (auto split: Force.splits prod.splits option.splits intro!: built_after_update_force)
qed

lemma built_after_perturbForce_store:
  assumes "built_after base system s"
    and "perturbForce_store self st reference_force system s = (r, s')"
  shows "built_after base system s'"
proof (cases "force_objects s ! reference_force")
  case (Nonbonded rf)
  obtain force s1 where n1: "new_force (Nonbonded rf) s = (force, s1)"
    by (cases "new_force (Nonbonded rf) s") auto
  let ?s2 = "update_system system (\<lambda>sys. addForce sys force) s1"
  have b2: "built_after base system ?s2" and fr: "length (force_objects base) \<le> force"
    using built_after_add_new_force[OF assms(1) n1] by simp_all
  let ?s3 = "if ligandElectrostatics st \<noteq> 1
             then update_force force
                    (\<lambda>f. case f of Nonbonded nb \<Rightarrow> Nonbonded (modifyElectrostatics self st nb)
                                   | _ \<Rightarrow> f) ?s2
             else ?s2"
  have b3: "built_after base system ?s3"
    using b2 fr by (simp add: built_after_update_force)
  have "s' = (if ligandLennardJones st \<noteq> 1
              then alchemicallyModifyLennardJones_store system force (ligand_atoms self) st ?s3
              else ?s3)"
    using assms(2) Nonbonded n1 by (simp add: perturbForce_store_def Let_def)
  then show ?thesis
    using b3 fr by (simp add: built_after_alchemicallyModifyLennardJones_store)
next
  case (GBSAOBC rf)
  then show ?thesis
    using assms built_after_add_new_force(1)[OF assms(1)]
    by (auto simp: perturbForce_store_def split: if_splits sum.splits prod.splits)
qed (use assms built_after_add_new_force(1)[OF assms(1)] in
      \<open>auto simp: perturbForce_store_def split: prod.splits\<close>)

lemma built_after_perturbForces_store:
  assumes "built_after base system s"
    and "perturbForces_store self st ns system s = (r, s')"
  shows "built_after base system s'"
  using assms
proof (induction ns arbitrary: s)
  case Nil
  then show ?case by simp
next
  case (Cons n ns)
  obtain r1 s1 where
    p: "perturbForce_store self st
          (forces (system_objects s ! reference_system self) ! n) system s = (r1, s1)"
    by (cases "perturbForce_store self st
          (forces (system_objects s ! reference_system self) ! n) system s") auto
  from built_after_perturbForce_store[OF Cons.prems(1) p] have b1: "built_after base system s1" .
  show ?case
  proof (cases r1)
    case None
    with Cons.prems(2) p have "perturbForces_store self st ns system s1 = (r, s')" by simp
    from Cons.IH[OF b1 this] show ?thesis .
  next
    case (Some e)
    with Cons.prems(2) p have "s' = s1" by simp
    with b1 show ?thesis by simp
  qed
qed

lemma built_after_later_store:
  assumes "built_after base system s1"
    and "prefix (system_objects s1) (system_objects s2)"
    and "prefix (force_objects s1) (force_objects s2)"
  shows "built_after base system s2"
proof -
  have "system < length (system_objects s1)"
    using assms(1) by (simp add: built_after_def)
  then have "system_objects s2 ! system = system_objects s1 ! system"
    using assms(2) by (simp add: prefix_nth)
  moreover have "length (system_objects s1) \<le> length (system_objects s2)"
    "length (force_objects s1) \<le> length (force_objects s2)"
    using assms(2,3) by (simp_all add: prefix_length_le)
  ultimately show ?thesis
    using assms by (auto simp: built_after_def list_all_iff intro: prefix_order.order_trans)
qed

lemma built_after_earlier_base:
  assumes "built_after s1 system s2"
    and "prefix (system_objects s) (system_objects s1)"
    and "prefix (force_objects s) (force_objects s1)"
  shows "built_after s system s2"
proof -
  have "length (system_objects s) \<le> length (system_objects s1)"
    "length (force_objects s) \<le> length (force_objects s1)"
    using assms(2,3) by (simp_all add: prefix_length_le)
  then show ?thesis
    using assms by (auto simp: built_after_def list_all_iff intro: prefix_order.order_trans)
qed

lemma built_after_createPerturbedSystem_store:
  assumes "createPerturbedSystem_store self st s = (r, s')"
  shows "\<exists>system. built_after s system s' \<and> (r = Inr system \<or> (\<exists>e. r = Inl e))"
proof -
  let ?reference = "system_objects s ! reference_system self"
  let ?system = "length (system_objects s)"
  let ?s0 = "s\<lparr>system_objects := system_objects s @ [System_new]\<rparr>"
  let ?s1 = "update_system ?system
               (\<lambda>sys. sys\<lparr>periodicBoxVectors := periodicBoxVectors ?reference\<rparr>) ?s0"
  let ?s2 = "update_system ?system
               (fold (\<lambda>atom_index sys. addParticle sys (particleMasses ?reference ! atom_index))
                     [0 ..< getNumParticles ?reference]) ?s1"
  let ?s3 = "update_system ?system
               (fold (\<lambda>constraint_index sys.
                        addConstraint sys (constraints ?reference ! constraint_index))
                     [0 ..< length (constraints ?reference)]) ?s2"
  have "built_after s ?system ?s0"
    by (simp add: built_after_def System_new_def)
  then have "built_after s ?system ?s1"
    by (rule built_after_update_system) simp
  then have "built_after s ?system ?s2"
    by (rule built_after_update_system) (simp add: fold_addParticle)
  then have b3: "built_after s ?system ?s3"
    by (rule built_after_update_system) (simp add: fold_addConstraint)
  obtain r1 s4 where
    p: "perturbForces_store self st [0 ..< length (forces ?reference)] ?system ?s3 = (r1, s4)"
    by (cases "perturbForces_store self st [0 ..< length (forces ?reference)] ?system ?s3") auto
  from built_after_perturbForces_store[OF b3 p] have b4: "built_after s ?system s4" .
  have "s' = s4 \<and> (r = Inr ?system \<or> (\<exists>e. r = Inl e))"
    using assms p by (cases r1) (auto simp: createPerturbedSystem_store_def new_system_def Let_def)
  with b4 show ?thesis by blast
qed

lemma createPerturbedSystems_store_outputs:
  assumes "createPerturbedSystems_store self alchemical_states s = (r, s')"
  shows "prefix (system_objects s) (system_objects s')
       \<and> prefix (force_objects s) (force_objects s')
       \<and> (\<forall>systems. r = Inr systems \<longrightarrow>
             length systems = length alchemical_states
           \<and> list_all (\<lambda>system. built_after s system s') systems
           \<and> distinct systems
           \<and> pairwise (\<lambda>a b. set (forces (system_objects s' ! a))
                                \<inter> set (forces (system_objects s' ! b)) = {})
                        (set systems))"
  using assms
proof (induction alchemical_states arbitrary: s r s')
  case Nil
  then show ?case by auto
next
  case (Cons st rest)
  obtain r1 s1 where c1: "createPerturbedSystem_store self st s = (r1, s1)"
    by (cases "createPerturbedSystem_store self st s") auto
  from built_after_createPerturbedSystem_store[OF c1] obtain system1 where
    b1: "built_after s system1 s1" and r1: "r1 = Inr system1 \<or> (\<exists>e. r1 = Inl e)"
    by blast
  have p1: "prefix (system_objects s) (system_objects s1)"
           "prefix (force_objects s) (force_objects s1)"
    using b1 by (simp_all add: built_after_def)
  show ?case
  proof (cases r1)
    case (Inl e)
    with Cons.prems c1 have "r = Inl e" "s' = s1" by simp_all
    with p1 show ?thesis by simp
  next
    case (Inr system)
    with r1 have sys: "r1 = Inr system1" by simp
    obtain r2 s2 where c2: "createPerturbedSystems_store self rest s1 = (r2, s2)"
      by (cases "createPerturbedSystems_store self rest s1") auto
    note ih = Cons.IH[OF c2]
    have p2: "prefix (system_objects s1) (system_objects s2)"
             "prefix (force_objects s1) (force_objects s2)"
      using ih by simp_all
    have s': "s' = s2"
      using Cons.prems c1 c2 sys by (cases r2) simp_all
    have pre: "prefix (system_objects s) (system_objects s')"
              "prefix (force_objects s) (force_objects s')"
      using p1 p2 s' by (auto intro: prefix_order.order_trans)
    have out: "length systems = length (st # rest)
           \<and> list_all (\<lambda>system. built_after s system s') systems
           \<and> distinct systems
           \<and> pairwise (\<lambda>a b. set (forces (system_objects s' ! a))
                                \<inter> set (forces (system_objects s' ! b)) = {})
                        (set systems)"
      if "r = Inr systems" for systems
    proof -
      from that Cons.prems c1 c2 sys obtain systems2 where
        r2: "r2 = Inr systems2" and systems: "systems = system1 # systems2"
        by (cases r2) auto
      from ih r2 have len: "length systems2 = length rest"
        and each: "list_all (\<lambda>system. built_after s1 system s2) systems2"
        and dist: "distinct systems2"
        and disj: "pairwise (\<lambda>a b. set (forces (system_objects s2 ! a))
                                \<inter> set (forces (system_objects s2 ! b)) = {})
                        (set systems2)"
        by simp_all
      have first: "built_after s system1 s2"
        using b1 p2 by (rule built_after_later_store)
      have later: "built_after s system s2" if "system \<in> set systems2" for system
        using each that p1 by (auto simp: list_all_iff intro: built_after_earlier_base)
      have old: "system1 < length (system_objects s1)"
        "\<forall>a \<in> set (forces (system_objects s2 ! system1)). a < length (force_objects s1)"
      proof -
        show o: "system1 < length (system_objects s1)"
          using b1 by (simp add: built_after_def)
        then have "system_objects s2 ! system1 = system_objects s1 ! system1"
          using p2 by (simp add: prefix_nth)
        then show "\<forall>a \<in> set (forces (system_objects s2 ! system1)). a < length (force_objects s1)"
          using b1 by (simp add: built_after_def list_all_iff)
      qed
      have new: "length (system_objects s1) \<le> system
                 \<and> (\<forall>a \<in> set (forces (system_objects s2 ! system)). length (force_objects s1) \<le> a)"
        if "system \<in> set systems2" for system
        using each that by (auto simp: list_all_iff built_after_def)
      have notin: "system1 \<notin> set systems2"
        using old(1) new by force
      have apart: "set (forces (system_objects s2 ! system1))
                     \<inter> set (forces (system_objects s2 ! system)) = {}"
        if "system \<in> set systems2" for system
        using old(2) new[OF that] by force
      have "pairwise (\<lambda>a b. set (forces (system_objects s2 ! a))
                                \<inter> set (forces (system_objects s2 ! b)) = {})
                        (insert system1 (set systems2))"
        using disj apart by (auto simp: pairwise_insert)
      then show ?thesis
        using systems len first later dist notin s' by (simp add: list_all_iff)
    qed
    from pre out show ?thesis by blast
  qed
qed

lemma load_system_later_store:
  assumes "system < length (system_objects s1)"
    and "list_all (\<lambda>a. a < length (force_objects s1)) (forces (system_objects s1 ! system))"
    and "prefix (system_objects s1) (system_objects s2)"
    and "prefix (force_objects s1) (force_objects s2)"
  shows "system_objects s2 ! system = system_objects s1 ! system"
    and "load_system s2 system = load_system s1 system"
proof -
  show obj: "system_objects s2 ! system = system_objects s1 ! system"
    using assms(3,1) by (rule prefix_nth)
  have "map (\<lambda>f. force_objects s2 ! f) (forces (system_objects s1 ! system))
          = map (\<lambda>f. force_objects s1 ! f) (forces (system_objects s1 ! system))"
    using assms(2,4) by (auto simp: list_all_iff prefix_nth)
  then show "load_system s2 system = load_system s1 system"
    by (simp add: load_system_def obj)
qed

lemma Factory_init_store_captures:
  assumes "reference < length (system_objects s)"
    and "list_all (\<lambda>a. a < length (force_objects s)) (forces (system_objects s ! reference))"
    and "Factory_init_store reference ligand s = (r, s')"
  shows "\<exists>self. r = Inr self
           \<and> ligand_atoms self = ligand \<and> ligand_atomset self = set ligand
           \<and> built_after s (reference_system self) s'
           \<and> load_system s' (reference_system self) = load_system s reference"
proof -
  let ?original = "system_objects s ! reference"
  let ?n = "length (force_objects s)"
  have copies: "map (\<lambda>f. (force_objects s @ map (\<lambda>f. force_objects s ! f) (forces ?original)) ! f)
                  [?n ..< ?n + length (forces ?original)]
                = map (\<lambda>f. force_objects s ! f) (forces ?original)"
    by (intro nth_equalityI) (simp_all add: nth_append)
  show ?thesis
    using assms(3) copies
    by (auto simp: Factory_init_store_def deepcopy_system_def new_system_def Let_def
          built_after_def load_system_def list_all_iff)
qed

lemma perturbForce_store_effect:
  assumes "system < length (system_objects s)"
  shows "perturbForce_store self st rf system s =
     (case perturbForce self st (force_objects s ! rf)
             \<lparr> periodicBoxVectors = periodicBoxVectors (system_objects s ! system),
               particleMasses = particleMasses (system_objects s ! system),
               constraints = constraints (system_objects s ! system),
               forces = [] \<rparr> of
        Inl e \<Rightarrow> (Some e, s)
      | Inr built \<Rightarrow>
          (None,
           s\<lparr> system_objects :=
                (system_objects s)
                  [system := (system_objects s ! system)
                     \<lparr>forces := forces (system_objects s ! system)
                        @ [length (force_objects s)
                             ..< length (force_objects s) + length (forces built)]\<rparr>],
              force_objects := force_objects s @ forces built \<rparr>))"
proof (cases "force_objects s ! rf")
  case (Nonbonded nb)
  show ?thesis
  proof (cases "ligandLennardJones st = 1")
    case True
    then show ?thesis
      using assms Nonbonded
      by (simp add: perturbForce_store_def new_force_def update_system_def update_force_def
            addForce_def Let_def list_update_append)
  next
    case False
    obtain nb' cn cb where lj:
      "alchemicallyModifyLennardJones
         (if ligandElectrostatics st \<noteq> 1 then modifyElectrostatics self st nb else nb)
         (ligand_atoms self) st = (nb', cn, cb)"
      by (cases "alchemicallyModifyLennardJones
         (if ligandElectrostatics st \<noteq> 1 then modifyElectrostatics self st nb else nb)
         (ligand_atoms self) st") auto
    have cb: "(cb = None) = (\<not> annihilateLennardJones st)"
      using lj by (auto simp: alchemicallyModifyLennardJones_eq)
    show ?thesis
      using assms Nonbonded False lj cb
      by (cases cb)
         (auto simp: perturbForce_store_def alchemicallyModifyLennardJones_store_def
            new_force_def update_system_def update_force_def
            addForce_def Let_def list_update_append nth_append)
  qed
qed (use assms in \<open>auto simp: perturbForce_store_def new_force_def update_system_def
        addForce_def Let_def getNumParticles_def split: sum.splits\<close>)

lemma perturbForce_reads_ligand_only:
  assumes "ligand_atoms self1 = ligand_atoms self2" "ligand_atomset self1 = ligand_atomset self2"
  shows "perturbForce self1 st f system = perturbForce self2 st f system"
proof -
  have "scaleParticleCharge self1 st = scaleParticleCharge self2 st"
    by (intro ext) (simp add: scaleParticleCharge_def assms)
  moreover have "scaleExceptionChargeprod self1 st = scaleExceptionChargeprod self2 st"
    by (intro ext) (simp add: scaleExceptionChargeprod_def assms)
  ultimately have m: "modifyElectrostatics self1 st = modifyElectrostatics self2 st"
    by (intro ext) (simp add: modifyElectrostatics_def)
  have t: "copyPeriodicTorsionForce self1 st = copyPeriodicTorsionForce self2 st"
    by (intro ext) (simp add: copyPeriodicTorsionForce_map assms)
  show ?thesis
    by (cases f) (simp_all add: m t assms)
qed

lemma perturbForce_from_empty:
  "perturbForce self st f system =
     (case perturbForce self st f (system\<lparr>forces := []\<rparr>) of
        Inl e \<Rightarrow> Inl e
      | Inr built \<Rightarrow> Inr (system\<lparr>forces := forces system @ forces built\<rparr>))"
  by (cases f)
     (auto simp: addForce_def Let_def getNumParticles_def split: sum.splits prod.splits option.splits)

lemma load_system_after_step:
  assumes "built_after base system s"
  shows "load_system
           (s\<lparr> system_objects :=
                (system_objects s)
                  [system := (system_objects s ! system)
                     \<lparr>forces := forces (system_objects s ! system)
                        @ [length (force_objects s) ..< length (force_objects s) + length new]\<rparr>],
              force_objects := force_objects s @ new \<rparr>) system
         = (load_system s system)\<lparr>forces := forces (load_system s system) @ new\<rparr>"
proof -
  have sys: "system < length (system_objects s)"
    and old: "\<forall>a \<in> set (forces (system_objects s ! system)). a < length (force_objects s)"
    using assms by (auto simp: built_after_def list_all_iff)
  have "map (\<lambda>f. (force_objects s @ new) ! f) (forces (system_objects s ! system))
          = map (\<lambda>f. force_objects s ! f) (forces (system_objects s ! system))"
    using old by (auto simp: nth_append)
  moreover have "map (\<lambda>f. (force_objects s @ new) ! f)
                   [length (force_objects s) ..< length (force_objects s) + length new] = new"
    by (intro nth_equalityI) (simp_all add: nth_append)
  ultimately show ?thesis
    using sys by (simp add: load_system_def)
qed

lemma perturbForce_store_refines:
  assumes "built_after base system s"
    and "perturbForce_store self st rf system s = (r, s')"
    and "ligand_atoms self' = ligand_atoms self" "ligand_atomset self' = ligand_atomset self"
  shows "perturbForce self' st (force_objects s ! rf) (load_system s system)
           = (case r of None \<Rightarrow> Inr (load_system s' system) | Some e \<Rightarrow> Inl e)"
proof -
  have sys: "system < length (system_objects s)"
    using assms(1) by (simp add: built_after_def)
  let ?empty = "\<lparr> periodicBoxVectors = periodicBoxVectors (system_objects s ! system),
                   particleMasses = particleMasses (system_objects s ! system),
                   constraints = constraints (system_objects s ! system),
                   forces = [] \<rparr> :: Force System"
  have empty: "(load_system s system)\<lparr>forces := []\<rparr> = ?empty"
    by (simp add: load_system_def)
  have same: "perturbForce self' st (force_objects s ! rf) (load_system s system)
                = perturbForce self st (force_objects s ! rf) (load_system s system)"
    by (rule perturbForce_reads_ligand_only) (simp_all add: assms)
  show ?thesis
  proof (cases "perturbForce self st (force_objects s ! rf) ?empty")
    case (Inl e)
    with assms(2) have "r = Some e" "s' = s"
      by (simp_all add: perturbForce_store_effect[OF sys])
    with Inl show ?thesis
      unfolding same by (subst perturbForce_from_empty) (simp add: empty)
  next
    case (Inr built)
    with assms(2) have r: "r = None"
      and s': "s' = s\<lparr> system_objects :=
                (system_objects s)
                  [system := (system_objects s ! system)
                     \<lparr>forces := forces (system_objects s ! system)
                        @ [length (force_objects s)
                             ..< length (force_objects s) + length (forces built)]\<rparr>],
              force_objects := force_objects s @ forces built \<rparr>"
      by (simp_all add: perturbForce_store_effect[OF sys])
    show ?thesis
      unfolding same r s' load_system_after_step[OF assms(1)]
      by (subst perturbForce_from_empty) (simp add: empty Inr)
  qed
qed

lemma perturbForces_store_refines:
  assumes "built_after base system s"
    and "perturbForces_store self st ns system s = (r, s')"
    and "reference_system self < length (system_objects base)"
    and "list_all (\<lambda>a. a < length (force_objects base))
           (forces (system_objects base ! reference_system self))"
    and "list_all (\<lambda>n. n < length (forces (system_objects base ! reference_system self))) ns"
  shows "perturbForces
           \<lparr> reference_system = load_system base (reference_system self),
             ligand_atoms = ligand_atoms self, ligand_atomset = ligand_atomset self \<rparr>
           st ns (load_system s system)
         = (case r of None \<Rightarrow> Inr (load_system s' system) | Some e \<Rightarrow> Inl e)"
  using assms(1,2,5)
proof (induction ns arbitrary: s)
  case Nil
  then show ?case by simp
next
  case (Cons n ns)
  let ?self' = "\<lparr> reference_system = load_system base (reference_system self),
                   ligand_atoms = ligand_atoms self, ligand_atomset = ligand_atomset self \<rparr>"
  let ?ref = "system_objects base ! reference_system self"
  have n: "n < length (forces ?ref)" using Cons.prems(3) by simp
  then have addr: "forces ?ref ! n < length (force_objects base)"
    using assms(4) by (simp add: list_all_iff)
  have pre: "prefix (system_objects base) (system_objects s)"
            "prefix (force_objects base) (force_objects s)"
    using Cons.prems(1) by (simp_all add: built_after_def)
  have ref: "system_objects s ! reference_system self = ?ref"
    using pre(1) assms(3) by (rule prefix_nth)
  have obj: "force_objects s ! (forces ?ref ! n) = force_objects base ! (forces ?ref ! n)"
    using pre(2) addr by (rule prefix_nth)
  have rf_value: "forces (load_system base (reference_system self)) ! n
                    = force_objects s ! (forces ?ref ! n)"
    using n by (simp add: load_system_def obj)
  obtain r1 s1 where
    p: "perturbForce_store self st (forces ?ref ! n) system s = (r1, s1)"
    by (cases "perturbForce_store self st (forces ?ref ! n) system s") auto
  have step: "perturbForce ?self' st (force_objects s ! (forces ?ref ! n)) (load_system s system)
           = (case r1 of None \<Rightarrow> Inr (load_system s1 system) | Some e \<Rightarrow> Inl e)"
    using Cons.prems(1) p by (rule perturbForce_store_refines) simp_all
  from built_after_perturbForce_store[OF Cons.prems(1) p] have b1: "built_after base system s1" .
  show ?case
  proof (cases r1)
    case None
    with Cons.prems(2) p ref have rest: "perturbForces_store self st ns system s1 = (r, s')"
      by simp
    have "list_all (\<lambda>n. n < length (forces ?ref)) ns" using Cons.prems(3) by simp
    from Cons.IH[OF b1 rest this] show ?thesis
      using None step by (simp add: rf_value)
  next
    case (Some e)
    with Cons.prems(2) p ref have "r = Some e" by simp
    then show ?thesis
      using Some step by (simp add: rf_value)
  qed
qed

lemma createPerturbedSystem_store_refines:
  assumes "createPerturbedSystem_store self st s = (r, s')"
    and "reference_system self < length (system_objects s)"
    and "list_all (\<lambda>a. a < length (force_objects s))
           (forces (system_objects s ! reference_system self))"
  shows "createPerturbedSystem
           \<lparr> reference_system = load_system s (reference_system self),
             ligand_atoms = ligand_atoms self, ligand_atomset = ligand_atomset self \<rparr> st
         = map_sum id (load_system s') r"
proof -
  let ?self' = "\<lparr> reference_system = load_system s (reference_system self),
                   ligand_atoms = ligand_atoms self, ligand_atomset = ligand_atomset self \<rparr>"
  let ?reference = "system_objects s ! reference_system self"
  let ?system = "length (system_objects s)"
  let ?s0 = "s\<lparr>system_objects := system_objects s @ [System_new]\<rparr>"
  let ?s1 = "update_system ?system
               (\<lambda>sys. sys\<lparr>periodicBoxVectors := periodicBoxVectors ?reference\<rparr>) ?s0"
  let ?s2 = "update_system ?system
               (fold (\<lambda>atom_index sys. addParticle sys (particleMasses ?reference ! atom_index))
                     [0 ..< getNumParticles ?reference]) ?s1"
  let ?s3 = "update_system ?system
               (fold (\<lambda>constraint_index sys.
                        addConstraint sys (constraints ?reference ! constraint_index))
                     [0 ..< length (constraints ?reference)]) ?s2"
  have "built_after s ?system ?s0"
    by (simp add: built_after_def System_new_def)
  then have "built_after s ?system ?s1"
    by (rule built_after_update_system) simp
  then have "built_after s ?system ?s2"
    by (rule built_after_update_system) (simp add: fold_addParticle)
  then have b3: "built_after s ?system ?s3"
    by (rule built_after_update_system) (simp add: fold_addConstraint)
  have start: "load_system ?s3 ?system = (load_system s (reference_system self))\<lparr>forces := []\<rparr>"
    by (simp add: load_system_def update_system_def System_new_def getNumParticles_def
          fold_addParticle fold_addConstraint map_nth)
  obtain r1 s4 where
    p: "perturbForces_store self st [0 ..< length (forces ?reference)] ?system ?s3 = (r1, s4)"
    by (cases "perturbForces_store self st [0 ..< length (forces ?reference)] ?system ?s3") auto
  have "list_all (\<lambda>n. n < length (forces ?reference)) [0 ..< length (forces ?reference)]"
    by (simp add: list_all_iff)
  from perturbForces_store_refines[OF b3 p assms(2,3) this]
  have loop: "perturbForces ?self' st [0 ..< length (forces ?reference)]
                ((load_system s (reference_system self))\<lparr>forces := []\<rparr>)
              = (case r1 of None \<Rightarrow> Inr (load_system s4 ?system) | Some e \<Rightarrow> Inl e)"
    by (simp add: start)
  have res: "s' = s4" "r = (case r1 of None \<Rightarrow> Inr ?system | Some e \<Rightarrow> Inl e)"
    using assms(1) p
    by (cases r1; auto simp: createPerturbedSystem_store_def new_system_def Let_def)+
  have len: "length (forces (load_system s (reference_system self))) = length (forces ?reference)"
    by (simp add: load_system_def)
  show ?thesis
    unfolding createPerturbedSystem_eq
    using loop by (cases r1) (simp_all add: res len)
qed

lemma createPerturbedSystems_store_refines:
  assumes "createPerturbedSystems_store self alchemical_states s = (r, s')"
    and "reference_system self < length (system_objects s)"
    and "list_all (\<lambda>a. a < length (force_objects s))
           (forces (system_objects s ! reference_system self))"
  shows "createPerturbedSystems
           \<lparr> reference_system = load_system s (reference_system self),
             ligand_atoms = ligand_atoms self, ligand_atomset = ligand_atomset self \<rparr>
           alchemical_states
         = map_sum id (map (load_system s')) r"
  using assms
proof (induction alchemical_states arbitrary: s r s')
  case Nil
  then show ?case by auto
next
  case (Cons st rest)
  let ?ref = "reference_system self"
  obtain r1 s1 where c1: "createPerturbedSystem_store self st s = (r1, s1)"
    by (cases "createPerturbedSystem_store self st s") auto
  note one = createPerturbedSystem_store_refines[OF c1 Cons.prems(2,3)]
  show ?case
  proof (cases r1)
    case (Inl e)
    with Cons.prems(1) c1 have "r = Inl e" by simp
    with one Inl show ?thesis by simp
  next
    case (Inr system1)
    from built_after_createPerturbedSystem_store[OF c1] Inr
    have b1: "built_after s system1 s1" by auto
    then have p1: "prefix (system_objects s) (system_objects s1)"
                  "prefix (force_objects s) (force_objects s1)"
      by (simp_all add: built_after_def)
    note ref1 = load_system_later_store[OF Cons.prems(2,3) p1]
    have wf1: "?ref < length (system_objects s1)"
      "list_all (\<lambda>a. a < length (force_objects s1)) (forces (system_objects s1 ! ?ref))"
      using Cons.prems(2,3) p1 ref1(1)
      by (auto simp: list_all_iff dest!: prefix_length_le)
    obtain r2 s2 where c2: "createPerturbedSystems_store self rest s1 = (r2, s2)"
      by (cases "createPerturbedSystems_store self rest s1") auto
    from Cons.IH[OF c2 wf1]
    have rest: "createPerturbedSystems
                  \<lparr> reference_system = load_system s ?ref,
                    ligand_atoms = ligand_atoms self, ligand_atomset = ligand_atomset self \<rparr> rest
                = map_sum id (map (load_system s2)) r2"
      by (simp only: ref1(2))
    from createPerturbedSystems_store_outputs[OF c2]
    have p2: "prefix (system_objects s1) (system_objects s2)"
             "prefix (force_objects s1) (force_objects s2)"
      by simp_all
    have "system1 < length (system_objects s1)"
      "list_all (\<lambda>a. a < length (force_objects s1)) (forces (system_objects s1 ! system1))"
      using b1 by (simp_all add: built_after_def list_all_iff)
    from load_system_later_store(2)[OF this p2]
    have first: "load_system s2 system1 = load_system s1 system1" .
    show ?thesis
      using Cons.prems(1) c1 c2 Inr one rest first
      by (cases r2) auto
  qed
qed



end
